theory Spec2Isabelle
  imports Complex_Main "HOL-Library.Log_Nat" "HOL-Library.Sublist"
begin

section \<open>Data model of the argument handler\<close>

text \<open>
  The source is \<^verbatim>\<open>src/utility/ArgumentHandler.cpp\<close>: the constructor, the option scanner
  \<^verbatim>\<open>processArguments\<close> and the validator \<^verbatim>\<open>checkArguments\<close>.

  A \<^verbatim>\<open>double\<close> is modelled by the number it denotes: a rational (every finite binary64
  value is one), the two infinities, or NaN. The sign of zero is not kept; the scanner
  only compares the values with 0 and 1.
\<close>

datatype double = Finite rat | PlusInf | MinusInf | NaN

text \<open>The comparisons of IEEE 754: every comparison with NaN is false.\<close>

fun d_less :: "double \<Rightarrow> double \<Rightarrow> bool" where
  "d_less NaN _ = False"
| "d_less _ NaN = False"
| "d_less (Finite x) (Finite y) = (x < y)"
| "d_less (Finite x) PlusInf = True"
| "d_less (Finite x) MinusInf = False"
| "d_less PlusInf _ = False"
| "d_less MinusInf (Finite y) = True"
| "d_less MinusInf PlusInf = True"
| "d_less MinusInf MinusInf = False"

fun d_eq :: "double \<Rightarrow> double \<Rightarrow> bool" where
  "d_eq NaN _ = False"
| "d_eq _ NaN = False"
| "d_eq x y = (x = y)"

definition d_le :: "double \<Rightarrow> double \<Rightarrow> bool" where
  "d_le x y = (d_less x y \<or> d_eq x y)"

text \<open>
  The exceptions that can leave the scanner: \<^verbatim>\<open>std::runtime_error\<close> with the message the
  source gives it, and the two exceptions of the conversions \<^verbatim>\<open>std::stoi\<close> and
  \<^verbatim>\<open>std::stod\<close>, whose text is the library's.
\<close>

datatype exception = runtime_error string | invalid_argument | out_of_range

datatype TreeType = TREE_QUANTILE | TREE_INSTRUMENTAL

text \<open>
  The members of the class. The integer members only ever receive values between 0 and
  \<open>2 ^ 31 - 1\<close> (a checked result of \<^verbatim>\<open>std::stoi\<close>), so they are integers here. The
  member \<^verbatim>\<open>argc\<close> is the length of \<open>argv\<close>; the members \<^verbatim>\<open>file\<close> and \<^verbatim>\<open>write\<close> are
  \<open>file_name\<close> and \<open>write_flag\<close> here, since both words are reserved.
\<close>

record ArgumentHandler =
  argv :: "string list"
  alwayssplitvars :: "string list"
  caseweights :: string
  depvarname :: string
  fraction :: double
  savemem :: bool
  predict :: string
  splitweights :: string
  nthreads :: int
  file_name :: string
  targetpartitionsize :: int
  mtry :: int
  quantiles :: "double list"
  statusvarname :: string
  instrumentvarname :: string
  ntree :: int
  replace :: bool
  verbose :: bool
  write_flag :: bool
  treetype :: TreeType
  seed :: int

text \<open>
  Modelled from the spec: \<^verbatim>\<open>DEFAULT_NUM_TREE\<close> is declared in a header that is not part of
  the source at hand; the data model of the spec gives 500 as the default number of
  trees, and so does the help text of the source.
\<close>

definition DEFAULT_NUM_TREE :: int where
  "DEFAULT_NUM_TREE = 500"

text \<open>
  The constructor. \<^verbatim>\<open>DEFAULT_NUM_THREADS\<close> is declared in the same missing header and the
  spec gives no number for it (``platform default''), so it is a parameter.
\<close>

definition new_ArgumentHandler :: "int \<Rightarrow> string list \<Rightarrow> ArgumentHandler" where
  "new_ArgumentHandler DEFAULT_NUM_THREADS args =
     \<lparr> argv = args, alwayssplitvars = [], caseweights = '''', depvarname = '''',
       fraction = Finite 1, savemem = False, predict = '''', splitweights = '''',
       nthreads = DEFAULT_NUM_THREADS, file_name = '''', targetpartitionsize = 0, mtry = 0,
       quantiles = [], statusvarname = '''', instrumentvarname = '''',
       ntree = DEFAULT_NUM_TREE, replace = True, verbose = False, write_flag = False,
       treetype = TREE_QUANTILE, seed = 0 \<rparr>"

text \<open>
  What a call leaves behind. \<^verbatim>\<open>processArguments\<close> returns an \<^verbatim>\<open>int\<close> after writing to
  \<^verbatim>\<open>std::cout\<close>, or an exception leaves it; in both cases the object keeps the members as
  they were at that moment. Passing a null pointer where a \<^verbatim>\<open>std::string\<close> is built has
  no defined behaviour.
\<close>

datatype printed = HelpText | VersionText | OtherParameter string

datatype outcome =
    Return int "printed list" ArgumentHandler
  | Throw exception ArgumentHandler
  | Undefined

text \<open>One pass of the scanning loop either goes on with the next option or leaves the function.\<close>

datatype step = Continue ArgumentHandler | Stop outcome


section \<open>The library functions the scanner calls\<close>

subsection \<open>Characters\<close>

text \<open>The character classes of \<^verbatim>\<open><cctype>\<close> in the C locale, and the value of a digit string.\<close>

definition isspace :: "char \<Rightarrow> bool" where
  "isspace c = (c = CHR '' '' \<or> (9 \<le> (of_char c :: nat) \<and> (of_char c :: nat) \<le> 13))"

definition isdigit :: "char \<Rightarrow> bool" where
  "isdigit c = (48 \<le> (of_char c :: nat) \<and> (of_char c :: nat) \<le> 57)"

definition tolower :: "char \<Rightarrow> char" where
  "tolower c = (if 65 \<le> (of_char c :: nat) \<and> (of_char c :: nat) \<le> 90
                then char_of ((of_char c :: nat) + 32) else c)"

definition isxdigit :: "char \<Rightarrow> bool" where
  "isxdigit c = (isdigit c \<or>
     (97 \<le> (of_char (tolower c) :: nat) \<and> (of_char (tolower c) :: nat) \<le> 102))"

definition digit_value :: "char \<Rightarrow> int" where
  "digit_value c =
     (if isdigit c then int (of_char c) - 48 else int (of_char (tolower c)) - 87)"

definition number :: "int \<Rightarrow> string \<Rightarrow> int" where
  "number base ds = foldl (\<lambda>a c. base * a + digit_value c) 0 ds"

definition sign_of :: "string \<Rightarrow> bool \<times> string" where
  "sign_of s = (if take 1 s = ''-'' then (True, tl s)
                else if take 1 s = ''+'' then (False, tl s) else (False, s))"

subsection \<open>std::stoi\<close>

text \<open>
  \<^verbatim>\<open>std::stoi(str)\<close> in base 10, as \<^verbatim>\<open>strtol\<close> reads a number: white space, an optional
  sign, then digits; what follows the digits is ignored. Without a digit it throws
  \<^verbatim>\<open>std::invalid_argument\<close>; a value that does not fit a 32-bit \<^verbatim>\<open>int\<close> throws
  \<^verbatim>\<open>std::out_of_range\<close>.
\<close>

definition stoi :: "string \<Rightarrow> exception + int" where
  "stoi str =
     (let (neg, s) = sign_of (dropWhile isspace str);
          ds = takeWhile isdigit s
      in if ds = [] then Inl invalid_argument
         else let v = (if neg then - number 10 ds else number 10 ds)
              in if v < - 2147483648 \<or> 2147483647 < v then Inl out_of_range else Inr v)"

subsection \<open>std::stod\<close>

text \<open>
  \<^verbatim>\<open>std::stod(str)\<close> as \<^verbatim>\<open>strtod\<close> reads a number in the C locale: white space, an optional
  sign, then \<^verbatim>\<open>inf\<close> or \<^verbatim>\<open>nan\<close> in any case, a hexadecimal literal, or a decimal literal;
  what follows is ignored. The value of a literal is rounded to the nearest binary64
  number, ties to even. Where \<^verbatim>\<open>strtod\<close> reports \<^verbatim>\<open>ERANGE\<close> (the rounded value is too
  large, or it is below the smallest normal number and not exact) \<^verbatim>\<open>std::stod\<close> throws
  \<^verbatim>\<open>std::out_of_range\<close>; where nothing is converted it throws \<^verbatim>\<open>std::invalid_argument\<close>.
\<close>

text \<open>\<open>scale b k x\<close> is \<open>x\<close> times \<open>b\<close> to the power \<open>k\<close>, for an exponent of either sign.\<close>

definition scale :: "rat \<Rightarrow> int \<Rightarrow> rat \<Rightarrow> rat" where
  "scale b k x = (if 0 \<le> k then x * b ^ nat k else x / b ^ nat (- k))"

text \<open>
  The binary exponent of a positive number \<open>a\<close>: the \<open>k\<close> with \<open>2 ^ k \<le> a < 2 ^ (k + 1)\<close>,
  found from the lengths in bits of numerator and denominator.
\<close>

definition floor_log2 :: "rat \<Rightarrow> int" where
  "floor_log2 a =
     (let (n, d) = quotient_of a; k = bitlen n - bitlen d
      in if scale 2 k 1 \<le> a then k else k - 1)"

text \<open>
  Rounding to the nearest integer, a tie to the even one; \<open>round_at e a\<close> rounds \<open>a\<close> to the
  nearest multiple of \<open>2 ^ e\<close>.
\<close>

definition round_half_even :: "rat \<Rightarrow> int" where
  "round_half_even x =
     (let f = \<lfloor>x\<rfloor>; r = x - of_int f
      in if r < 1 / 2 then f else if 1 / 2 < r then f + 1 else if even f then f else f + 1)"

definition round_at :: "int \<Rightarrow> rat \<Rightarrow> rat" where
  "round_at e a = scale 2 e (of_int (round_half_even (scale 2 (- e) a)))"

text \<open>
  The binary64 number for the magnitude \<open>a\<close> and the sign \<open>neg\<close>: 53 significant bits, and
  no multiple of less than \<open>2 ^ - 1074\<close>. \<^verbatim>\<open>ERANGE\<close> is reported when the rounded value is
  \<open>2 ^ 1024\<close> or more, and when it is less than \<open>2 ^ - 1022\<close> and differs from \<open>a\<close>.
\<close>

definition to_binary64 :: "bool \<Rightarrow> rat \<Rightarrow> exception + double" where
  "to_binary64 neg a =
     (if a = 0 then Inr (Finite 0)
      else let v = round_at (max (floor_log2 a - 52) (- 1074)) a
           in if v \<noteq> 0 \<and> 1024 \<le> floor_log2 v then Inl out_of_range
              else if (v = 0 \<or> floor_log2 v < - 1022) \<and> v \<noteq> a then Inl out_of_range
              else Inr (Finite (if neg then - v else v)))"

text \<open>
  The exponent of a literal: the marker (\<^verbatim>\<open>e\<close> or \<^verbatim>\<open>p\<close>, in either case), an optional sign and
  decimal digits; without a digit there is no exponent part. A literal is a sequence of
  digits with at most one point and at least one digit, then the exponent part.
\<close>

definition exponent_part :: "char \<Rightarrow> string \<Rightarrow> int" where
  "exponent_part marker s =
     (if s \<noteq> [] \<and> tolower (hd s) = marker
      then let (neg, r) = sign_of (tl s); ds = takeWhile isdigit r
           in if ds = [] then 0 else if neg then - number 10 ds else number 10 ds
      else 0)"

definition literal :: "int \<Rightarrow> (char \<Rightarrow> bool) \<Rightarrow> char \<Rightarrow> int \<Rightarrow> string \<Rightarrow> rat option" where
  "literal base is_digit marker digit_weight s =
     (let ip = takeWhile is_digit s; r = dropWhile is_digit s;
          fp = (if take 1 r = ''.'' then takeWhile is_digit (tl r) else []);
          r' = (if take 1 r = ''.'' then dropWhile is_digit (tl r) else r)
      in if ip = [] \<and> fp = [] then None
         else Some (scale (if marker = CHR ''p'' then 2 else 10)
                      (exponent_part marker r' - digit_weight * int (length fp))
                      (of_int (number base (ip @ fp)))))"

definition decimal_literal :: "string \<Rightarrow> rat option" where
  "decimal_literal s = literal 10 isdigit (CHR ''e'') 1 s"

definition hex_literal :: "string \<Rightarrow> rat option" where
  "hex_literal s =
     (if map tolower (take 2 s) = ''0x'' then literal 16 isxdigit (CHR ''p'') 4 (drop 2 s)
      else None)"

definition stod :: "string \<Rightarrow> exception + double" where
  "stod str =
     (let (neg, s) = sign_of (dropWhile isspace str)
      in if map tolower (take 3 s) = ''inf'' then Inr (if neg then MinusInf else PlusInf)
         else if map tolower (take 3 s) = ''nan'' then Inr NaN
         else case hex_literal s of
                Some a \<Rightarrow> to_binary64 neg a
              | None \<Rightarrow> (case decimal_literal s of
                           Some a \<Rightarrow> to_binary64 neg a
                         | None \<Rightarrow> Inl invalid_argument))"

subsection \<open>splitString\<close>

text \<open>
  Modelled from the spec: \<^verbatim>\<open>splitString\<close> is declared in \<^verbatim>\<open>utility.h\<close>, which is not part of
  the source at hand. The spec calls the value of such an option a comma-delimited list.
  Here the input is cut at every delimiter as \<^verbatim>\<open>std::getline\<close> does it (an empty input
  gives no token, a delimiter at the very end starts no further token) and the tokens are
  added at the end of the vector that the caller passes by reference.
\<close>

function tokens :: "string \<Rightarrow> char \<Rightarrow> string list" where
  "tokens s c =
     (if s = [] then []
      else takeWhile (\<lambda>x. x \<noteq> c) s # tokens (drop 1 (dropWhile (\<lambda>x. x \<noteq> c) s)) c)"
  by pat_completeness auto
termination
proof (relation "measure (\<lambda>(s, c). length s)")
  fix s :: string and c :: char
  assume "s \<noteq> []"
  moreover have "length (dropWhile (\<lambda>x. x \<noteq> c) s) \<le> length s"
    by (rule length_dropWhile_le)
  ultimately have "length (drop 1 (dropWhile (\<lambda>x. x \<noteq> c) s)) < length s"
    by (cases s) (simp_all del: dropWhile.simps)
  then show "((drop 1 (dropWhile (\<lambda>x. x \<noteq> c) s), c), (s, c)) \<in> measure (\<lambda>(s, c). length s)"
    by simp
qed simp

definition splitString :: "string list \<Rightarrow> string \<Rightarrow> char \<Rightarrow> string list" where
  "splitString result input split_char = result @ tokens input split_char"

subsection \<open>getopt_long\<close>

text \<open>
  The two option tables of \<^verbatim>\<open>processArguments\<close>. The member \<^verbatim>\<open>flag\<close> of every long option
  is 0, so \<^verbatim>\<open>getopt_long\<close> returns the member \<^verbatim>\<open>val\<close>.
\<close>

datatype has_arg = no_argument | required_argument | optional_argument

definition short_options :: string where
  "short_options = ''A:C:D:F:HM:NP:S:U:XZa:b:c:f:hil::m:o:pr:s:t:uvwy:z:''"

definition long_options :: "(string \<times> has_arg \<times> char) list" where
  "long_options =
     [ (''alwayssplitvars'',     required_argument, CHR ''A''),
       (''caseweights'',         required_argument, CHR ''C''),
       (''depvarname'',          required_argument, CHR ''D''),
       (''fraction'',            required_argument, CHR ''F''),
       (''savemem'',             no_argument,       CHR ''N''),
       (''predict'',             required_argument, CHR ''P''),
       (''splitweights'',        required_argument, CHR ''S''),
       (''nthreads'',            required_argument, CHR ''U''),
       (''predall'',             no_argument,       CHR ''X''),
       (''version'',             no_argument,       CHR ''Z''),
       (''file'',                required_argument, CHR ''f''),
       (''help'',                no_argument,       CHR ''h''),
       (''targetpartitionsize'', required_argument, CHR ''l''),
       (''mtry'',                required_argument, CHR ''m''),
       (''quantiles'',           required_argument, CHR ''q''),
       (''splitrule'',           required_argument, CHR ''r''),
       (''statusvarname'',       required_argument, CHR ''s''),
       (''instrumentvarname'',   required_argument, CHR ''i''),
       (''ntree'',               required_argument, CHR ''t''),
       (''noreplace'',           no_argument,       CHR ''u''),
       (''verbose'',             no_argument,       CHR ''v''),
       (''write'',               no_argument,       CHR ''w''),
       (''treetype'',            required_argument, CHR ''y''),
       (''seed'',                required_argument, CHR ''z'') ]"

text \<open>
  \<^verbatim>\<open>getopt_long\<close> of the GNU C library, with its default ordering (the option string
  starts with neither \<^verbatim>\<open>+\<close> nor \<^verbatim>\<open>-\<close>, and \<^verbatim>\<open>POSIXLY_CORRECT\<close> is not set): the elements of
  \<open>argv\<close> after the program name are read from left to right, an element that is no option
  is passed over, and \<^verbatim>\<open>--\<close> ends the options. Each call gives the code of the next option
  and sets \<^verbatim>\<open>optarg\<close> (null when the option has no argument); for an option it does not
  know, one that is ambiguous, or one whose argument is missing or not allowed, it writes
  a message to \<^verbatim>\<open>stderr\<close> and gives \<^verbatim>\<open>'?'\<close>.

  A character stands for an option when it is in the option string and is neither \<^verbatim>\<open>:\<close>
  nor \<^verbatim>\<open>;\<close>; one colon after it asks for an argument, two make the argument optional.
\<close>

type_synonym getopt_result = "char \<times> string option"

fun short_lookup :: "string \<Rightarrow> char \<Rightarrow> has_arg option" where
  "short_lookup [] c = None"
| "short_lookup (x # xs) c =
     (if x = c then
        (if c = CHR '':'' \<or> c = CHR '';'' then None
         else if take 2 xs = ''::'' then Some optional_argument
         else if take 1 xs = '':'' then Some required_argument
         else Some no_argument)
      else short_lookup xs c)"

text \<open>
  The characters of one element \<^verbatim>\<open>-abc\<close>. An option with an argument takes the rest of
  the element, or (when the argument is required and nothing is left) the next element.
\<close>

fun short_option :: "string \<Rightarrow> string list \<Rightarrow> getopt_result list \<times> string list" where
  "short_option [] rest = ([], rest)"
| "short_option (c # cs) rest =
     (case short_lookup short_options c of
        None \<Rightarrow> (let (rs, rest') = short_option cs rest in ((CHR ''?'', None) # rs, rest'))
      | Some no_argument \<Rightarrow>
          (let (rs, rest') = short_option cs rest in ((c, None) # rs, rest'))
      | Some optional_argument \<Rightarrow> ([(c, if cs = [] then None else Some cs)], rest)
      | Some required_argument \<Rightarrow>
          (if cs \<noteq> [] then ([(c, Some cs)], rest)
           else case rest of
                  [] \<Rightarrow> ([(CHR ''?'', None)], [])
                | a # rest' \<Rightarrow> ([(c, Some a)], rest')))"

text \<open>
  An element \<^verbatim>\<open>--name\<close> or \<^verbatim>\<open>--name=value\<close>. A name that is exactly in the table is that
  option; otherwise the name may be the beginning of exactly one entry (or of several
  that agree in everything but the name).
\<close>

definition long_lookup :: "string \<Rightarrow> (string \<times> has_arg \<times> char) option" where
  "long_lookup nm =
     (case filter (\<lambda>p. fst p = nm) long_options of
        p # _ \<Rightarrow> Some p
      | [] \<Rightarrow> (case filter (\<lambda>p. prefix nm (fst p)) long_options of
                 [] \<Rightarrow> None
               | p # ps \<Rightarrow> if list_all (\<lambda>q. snd q = snd p) ps then Some p else None))"

definition long_option :: "string \<Rightarrow> string list \<Rightarrow> getopt_result \<times> string list" where
  "long_option body rest =
     (let nm = takeWhile (\<lambda>x. x \<noteq> CHR ''='') body;
          eq = dropWhile (\<lambda>x. x \<noteq> CHR ''='') body
      in case long_lookup nm of
           None \<Rightarrow> ((CHR ''?'', None), rest)
         | Some (n, ha, v) \<Rightarrow>
             if eq \<noteq> [] then
               (if ha = no_argument then ((CHR ''?'', None), rest)
                else ((v, Some (tl eq)), rest))
             else if ha = required_argument then
               (case rest of
                  [] \<Rightarrow> ((CHR ''?'', None), [])
                | a # rest' \<Rightarrow> ((v, Some a), rest'))
             else ((v, None), rest))"

text \<open>
  All the calls of \<^verbatim>\<open>getopt_long\<close> until it gives -1: the results in their order, and
  the elements that are left from \<^verbatim>\<open>optind\<close> on (those passed over, then those after
  \<^verbatim>\<open>--\<close>). The calls do not depend on what the scanner does between them.
\<close>

lemma short_option_rest: "length (snd (short_option cs rest)) \<le> length rest"
  by (induction cs) (auto split: option.splits has_arg.splits list.splits prod.splits)

lemma long_option_rest: "length (snd (long_option body rest)) \<le> length rest"
  by (auto simp: long_option_def Let_def split: option.splits list.splits prod.splits)

function getopt_long :: "string list \<Rightarrow> getopt_result list \<times> string list" where
  "getopt_long [] = ([], [])"
| "getopt_long (a # rest) =
     (if a = ''--'' then ([], rest)
      else if take 2 a = ''--'' then
        (let (r, rest') = long_option (drop 2 a) rest;
             (rs, others) = getopt_long rest'
         in (r # rs, others))
      else if take 1 a = ''-'' \<and> a \<noteq> ''-'' then
        (let (rs0, rest') = short_option (tl a) rest;
             (rs, others) = getopt_long rest'
         in (rs0 @ rs, others))
      else (let (rs, others) = getopt_long rest in (rs, a # others)))"
  by pat_completeness auto
termination
proof (relation "measure length", goal_cases)
  case 1
  show ?case by simp
next
  case (2 a rest x r rest')
  then have "rest' = snd (long_option (drop 2 a) rest)"
    by (metis snd_conv)
  then show ?case
    using long_option_rest [of "drop 2 a" rest] by simp
next
  case (3 a rest x rs0 rest')
  then have "rest' = snd (short_option (tl a) rest)"
    by (metis snd_conv)
  then show ?case
    using short_option_rest [of "tl a" rest] by simp
next
  case (4 a rest)
  show ?case by simp
qed


section \<open>The option scanner\<close>

text \<open>
  A case of the \<^verbatim>\<open>switch\<close> that reads \<^verbatim>\<open>optarg\<close> builds a \<^verbatim>\<open>std::string\<close> from it. With the
  tables above \<^verbatim>\<open>optarg\<close> can be null in the cases \<^verbatim>\<open>'i'\<close> and \<^verbatim>\<open>'l'\<close> only (the short
  spellings \<^verbatim>\<open>-i\<close> and \<^verbatim>\<open>-l\<close>).
\<close>

definition with_optarg :: "string option \<Rightarrow> (string \<Rightarrow> step) \<Rightarrow> step" where
  "with_optarg optarg f = (case optarg of None \<Rightarrow> Stop Undefined | Some a \<Rightarrow> f a)"

text \<open>\<^verbatim>\<open>try { body } catch (...) { throw std::runtime_error(msg); }\<close>\<close>

definition catch_all :: "string \<Rightarrow> step \<Rightarrow> step" where
  "catch_all msg body =
     (case body of
        Stop (Throw e h) \<Rightarrow> Stop (Throw (runtime_error msg) h)
      | r \<Rightarrow> r)"

definition case_A :: "string option \<Rightarrow> ArgumentHandler \<Rightarrow> step" where
  "case_A optarg h =
     with_optarg optarg (\<lambda>a.
       Continue (h\<lparr>alwayssplitvars := splitString (alwayssplitvars h) a (CHR '','')\<rparr>))"

definition case_C :: "string option \<Rightarrow> ArgumentHandler \<Rightarrow> step" where
  "case_C optarg h = with_optarg optarg (\<lambda>a. Continue (h\<lparr>caseweights := a\<rparr>))"

definition case_D :: "string option \<Rightarrow> ArgumentHandler \<Rightarrow> step" where
  "case_D optarg h = with_optarg optarg (\<lambda>a. Continue (h\<lparr>depvarname := a\<rparr>))"

definition case_F :: "string option \<Rightarrow> ArgumentHandler \<Rightarrow> step" where
  "case_F optarg h =
     with_optarg optarg (\<lambda>a.
       catch_all
         ''Illegal argument for option 'fraction'. Please give a value in (0,1]. See '--help' for details.''
         (case stod a of
            Inl e \<Rightarrow> Stop (Throw e h)
          | Inr x \<Rightarrow>
              (let h' = h\<lparr>fraction := x\<rparr>
               in if d_less (Finite 1) (fraction h') \<or> d_le (fraction h') (Finite 0)
                  then Stop (Throw (runtime_error []) h')
                  else Continue h')))"

definition case_N :: "ArgumentHandler \<Rightarrow> step" where
  "case_N h = Continue (h\<lparr>savemem := True\<rparr>)"

definition case_P :: "string option \<Rightarrow> ArgumentHandler \<Rightarrow> step" where
  "case_P optarg h = with_optarg optarg (\<lambda>a. Continue (h\<lparr>predict := a\<rparr>))"

definition case_S :: "string option \<Rightarrow> ArgumentHandler \<Rightarrow> step" where
  "case_S optarg h = with_optarg optarg (\<lambda>a. Continue (h\<lparr>splitweights := a\<rparr>))"

definition case_U :: "string option \<Rightarrow> ArgumentHandler \<Rightarrow> step" where
  "case_U optarg h =
     with_optarg optarg (\<lambda>a.
       catch_all
         ''Illegal argument for option 'nthreads'. Please give a positive integer. See '--help' for details.''
         (case stoi a of
            Inl e \<Rightarrow> Stop (Throw e h)
          | Inr temp \<Rightarrow>
              if temp < 1 then Stop (Throw (runtime_error []) h)
              else Continue (h\<lparr>nthreads := temp\<rparr>)))"

definition case_Z :: "ArgumentHandler \<Rightarrow> step" where
  "case_Z h = Stop (Return (- 1) [VersionText] h)"

definition case_f :: "string option \<Rightarrow> ArgumentHandler \<Rightarrow> step" where
  "case_f optarg h = with_optarg optarg (\<lambda>a. Continue (h\<lparr>file_name := a\<rparr>))"

definition case_h :: "ArgumentHandler \<Rightarrow> step" where
  "case_h h = Stop (Return (- 1) [HelpText] h)"

definition case_l :: "string option \<Rightarrow> ArgumentHandler \<Rightarrow> step" where
  "case_l optarg h =
     with_optarg optarg (\<lambda>a.
       catch_all
         ''Illegal argument for option 'targetpartitionsize'. Please give a positive integer. See '--help' for details.''
         (case stoi a of
            Inl e \<Rightarrow> Stop (Throw e h)
          | Inr temp \<Rightarrow>
              if temp < 1 then Stop (Throw (runtime_error []) h)
              else Continue (h\<lparr>targetpartitionsize := temp\<rparr>)))"

definition case_m :: "string option \<Rightarrow> ArgumentHandler \<Rightarrow> step" where
  "case_m optarg h =
     with_optarg optarg (\<lambda>a.
       catch_all
         ''Illegal argument for option 'mtry'. Please give a positive integer. See '--help' for details.''
         (case stoi a of
            Inl e \<Rightarrow> Stop (Throw e h)
          | Inr temp \<Rightarrow>
              if temp < 1 then Stop (Throw (runtime_error []) h)
              else Continue (h\<lparr>mtry := temp\<rparr>)))"

text \<open>The loop of case \<^verbatim>\<open>'q'\<close> over the elements of \<^verbatim>\<open>split_args\<close>; it is in no \<^verbatim>\<open>try\<close> block.\<close>

fun push_quantiles :: "string list \<Rightarrow> ArgumentHandler \<Rightarrow> step" where
  "push_quantiles [] h = Continue h"
| "push_quantiles (arg # args) h =
     (case stod arg of
        Inl e \<Rightarrow> Stop (Throw e h)
      | Inr quantile \<Rightarrow>
          if d_le (Finite 1) quantile \<or> d_le quantile (Finite 0)
          then Stop (Throw (runtime_error ''All quantiles must lie in the range (0, 1).'') h)
          else push_quantiles args (h\<lparr>quantiles := quantiles h @ [quantile]\<rparr>))"

definition case_q :: "string option \<Rightarrow> ArgumentHandler \<Rightarrow> step" where
  "case_q optarg h =
     with_optarg optarg (\<lambda>a. push_quantiles (splitString [] a (CHR '','')) h)"

definition case_s :: "string option \<Rightarrow> ArgumentHandler \<Rightarrow> step" where
  "case_s optarg h = with_optarg optarg (\<lambda>a. Continue (h\<lparr>statusvarname := a\<rparr>))"

definition case_i :: "string option \<Rightarrow> ArgumentHandler \<Rightarrow> step" where
  "case_i optarg h = with_optarg optarg (\<lambda>a. Continue (h\<lparr>instrumentvarname := a\<rparr>))"

definition case_t :: "string option \<Rightarrow> ArgumentHandler \<Rightarrow> step" where
  "case_t optarg h =
     with_optarg optarg (\<lambda>a.
       catch_all
         ''Illegal argument for option 'ntree'. Please give a positive integer. See '--help' for details.''
         (case stoi a of
            Inl e \<Rightarrow> Stop (Throw e h)
          | Inr temp \<Rightarrow>
              if temp < 1 then Stop (Throw (runtime_error []) h)
              else Continue (h\<lparr>ntree := temp\<rparr>)))"

definition case_u :: "ArgumentHandler \<Rightarrow> step" where
  "case_u h = Continue (h\<lparr>replace := False\<rparr>)"

definition case_v :: "ArgumentHandler \<Rightarrow> step" where
  "case_v h = Continue (h\<lparr>verbose := True\<rparr>)"

definition case_w :: "ArgumentHandler \<Rightarrow> step" where
  "case_w h = Continue (h\<lparr>write_flag := True\<rparr>)"

definition case_y :: "string option \<Rightarrow> ArgumentHandler \<Rightarrow> step" where
  "case_y optarg h =
     with_optarg optarg (\<lambda>a.
       catch_all
         ''Illegal argument for option 'treetype'. Please give a positive integer. See '--help' for details.''
         (case stoi a of
            Inl e \<Rightarrow> Stop (Throw e h)
          | Inr n \<Rightarrow>
              if n = 11 then Continue (h\<lparr>treetype := TREE_QUANTILE\<rparr>)
              else if n = 15 then Continue (h\<lparr>treetype := TREE_INSTRUMENTAL\<rparr>)
              else Stop (Throw (runtime_error []) h)))"

definition case_z :: "string option \<Rightarrow> ArgumentHandler \<Rightarrow> step" where
  "case_z optarg h =
     with_optarg optarg (\<lambda>a.
       catch_all
         ''Illegal argument for option 'seed'. Please give a positive integer. See '--help' for details.''
         (case stoi a of
            Inl e \<Rightarrow> Stop (Throw e h)
          | Inr temp \<Rightarrow>
              if temp < 0 then Stop (Throw (runtime_error []) h)
              else Continue (h\<lparr>seed := temp\<rparr>)))"

text \<open>The \<^verbatim>\<open>switch\<close> on the code that \<^verbatim>\<open>getopt_long\<close> gave; the last line is \<^verbatim>\<open>default: break;\<close>.\<close>

definition switch :: "char \<Rightarrow> string option \<Rightarrow> ArgumentHandler \<Rightarrow> step" where
  "switch c optarg h =
     (if c = CHR ''A'' then case_A optarg h
      else if c = CHR ''C'' then case_C optarg h
      else if c = CHR ''D'' then case_D optarg h
      else if c = CHR ''F'' then case_F optarg h
      else if c = CHR ''N'' then case_N h
      else if c = CHR ''P'' then case_P optarg h
      else if c = CHR ''S'' then case_S optarg h
      else if c = CHR ''U'' then case_U optarg h
      else if c = CHR ''Z'' then case_Z h
      else if c = CHR ''f'' then case_f optarg h
      else if c = CHR ''h'' then case_h h
      else if c = CHR ''l'' then case_l optarg h
      else if c = CHR ''m'' then case_m optarg h
      else if c = CHR ''q'' then case_q optarg h
      else if c = CHR ''s'' then case_s optarg h
      else if c = CHR ''i'' then case_i optarg h
      else if c = CHR ''t'' then case_t optarg h
      else if c = CHR ''u'' then case_u h
      else if c = CHR ''v'' then case_v h
      else if c = CHR ''w'' then case_w h
      else if c = CHR ''y'' then case_y optarg h
      else if c = CHR ''z'' then case_z optarg h
      else Continue h)"

text \<open>
  The loop \<^verbatim>\<open>while (1)\<close> over the results of \<^verbatim>\<open>getopt_long\<close>; the empty list is the
  result -1, at which the loop is left.
\<close>

fun scan :: "getopt_result list \<Rightarrow> ArgumentHandler \<Rightarrow> step" where
  "scan [] h = Continue h"
| "scan ((c, optarg) # rs) h =
     (case switch c optarg h of
        Continue h' \<Rightarrow> scan rs h'
      | Stop r \<Rightarrow> Stop r)"

text \<open>
  \<^verbatim>\<open>processArguments\<close>: the loop, then one line of output for every element that is left,
  then \<^verbatim>\<open>return 0\<close>. \<^verbatim>\<open>getopt_long\<close> starts after the program name \<^verbatim>\<open>argv[0]\<close>.
\<close>

definition processArguments :: "ArgumentHandler \<Rightarrow> outcome" where
  "processArguments h =
     (let (rs, others) = getopt_long (tl (argv h))
      in case scan rs h of
           Stop r \<Rightarrow> r
         | Continue h' \<Rightarrow> Return 0 (map OtherParameter others) h')"


section \<open>The validator\<close>

text \<open>
  \<^verbatim>\<open>checkArguments\<close> is a sequence of six statements \<^verbatim>\<open>if (guard) throw std::runtime_error(msg);\<close>.
  The result is the exception that leaves the function, if any; the members are only read.
\<close>

definition checks :: "ArgumentHandler \<Rightarrow> (bool \<times> string) list" where
  "checks h =
     [ (file_name h = [],
        ''Please specify an input filename with '--file'. See '--help' for details.''),
       (predict h = [] \<and> depvarname h = [],
        ''Please specify a dependent variable name with '--depvarname'. See '--help' for details.''),
       (treetype h = TREE_INSTRUMENTAL \<and> instrumentvarname h = [],
        ''When using instrumental trees, the instrument variable must be specified through--instrumentvarname. See '--help' for details.''),
       (treetype h = TREE_INSTRUMENTAL \<and> statusvarname h = [],
        ''When using instrumental trees, the treatment variable must be specified through--statusvarname. See '--help' for details.''),
       (treetype h = TREE_INSTRUMENTAL \<and> instrumentvarname h = [],
        ''Option '--instrumentvarname' only applicable for instrumental forests. See '--help' for details.''),
       (alwayssplitvars h \<noteq> [] \<and> splitweights h \<noteq> [],
        ''Please use only one option of splitweights and alwayssplitvars.'') ]"

fun first_throw :: "(bool \<times> string) list \<Rightarrow> exception option" where
  "first_throw [] = None"
| "first_throw ((guard, msg) # cs) =
     (if guard then Some (runtime_error msg) else first_throw cs)"

definition checkArguments :: "ArgumentHandler \<Rightarrow> exception option" where
  "checkArguments h = first_throw (checks h)"


section \<open>The rules of the specification\<close>

text \<open>
  The five rules of the spec's consistency validator, in the order of the spec: the
  number of the first rule that a configuration violates, if it violates one.
\<close>

definition first_violated_rule :: "ArgumentHandler \<Rightarrow> nat option" where
  "first_violated_rule h =
     (if file_name h = [] then Some 1
      else if predict h = [] \<and> depvarname h = [] then Some 2
      else if treetype h = TREE_INSTRUMENTAL \<and> instrumentvarname h = [] then Some 3
      else if treetype h = TREE_INSTRUMENTAL \<and> statusvarname h = [] then Some 4
      else if alwayssplitvars h \<noteq> [] \<and> splitweights h \<noteq> [] then Some 5
      else None)"

text \<open>The exception with which the source answers the violation of a rule.\<close>

definition rule_error :: "nat \<Rightarrow> exception" where
  "rule_error k = runtime_error
     (if k = 1 then
        ''Please specify an input filename with '--file'. See '--help' for details.''
      else if k = 2 then
        ''Please specify a dependent variable name with '--depvarname'. See '--help' for details.''
      else if k = 3 then
        ''When using instrumental trees, the instrument variable must be specified through--instrumentvarname. See '--help' for details.''
      else if k = 4 then
        ''When using instrumental trees, the treatment variable must be specified through--statusvarname. See '--help' for details.''
      else
        ''Please use only one option of splitweights and alwayssplitvars.'')"

text \<open>
  The uniform failure of the spec for a malformed option value: a \<^verbatim>\<open>std::runtime_error\<close>
  whose message names the option and the values that it accepts.
\<close>

definition illegal_argument :: "string \<Rightarrow> string \<Rightarrow> string" where
  "illegal_argument name expected =
     ''Illegal argument for option '' @ [CHR 0x27] @ name @ [CHR 0x27] @ ''. Please give '' @
     expected @ ''. See '--help' for details.''"

definition uniform_failure :: "string \<Rightarrow> exception \<Rightarrow> bool" where
  "uniform_failure name e =
     (case e of
        runtime_error msg \<Rightarrow>
          prefix (''Illegal argument for option '' @ [CHR 0x27] @ name @ [CHR 0x27] @ ''. Please give '') msg \<and>
          suffix ''. See '--help' for details.'' msg
      | _ \<Rightarrow> False)"

text \<open>
  The integer options of the spec: the code of the option, its external name, its least
  valid value and the member that receives the value.
\<close>

definition integer_options ::
  "(char \<times> string \<times> int \<times> (int \<Rightarrow> ArgumentHandler \<Rightarrow> ArgumentHandler)) list" where
  "integer_options =
     [ (CHR ''t'', ''ntree'', 1, \<lambda>n h. h\<lparr>ntree := n\<rparr>),
       (CHR ''m'', ''mtry'', 1, \<lambda>n h. h\<lparr>mtry := n\<rparr>),
       (CHR ''l'', ''targetpartitionsize'', 1, \<lambda>n h. h\<lparr>targetpartitionsize := n\<rparr>),
       (CHR ''U'', ''nthreads'', 1, \<lambda>n h. h\<lparr>nthreads := n\<rparr>),
       (CHR ''z'', ''seed'', 0, \<lambda>n h. h\<lparr>seed := n\<rparr>) ]"

text \<open>
  The options whose failures the source turns into the uniform failure: the code, the
  external name, and the text that the message gives for the valid values.
\<close>

definition failure_texts :: "(char \<times> string \<times> string) list" where
  "failure_texts =
     [ (CHR ''F'', ''fraction'', ''a value in (0,1]''),
       (CHR ''U'', ''nthreads'', ''a positive integer''),
       (CHR ''l'', ''targetpartitionsize'', ''a positive integer''),
       (CHR ''m'', ''mtry'', ''a positive integer''),
       (CHR ''t'', ''ntree'', ''a positive integer''),
       (CHR ''y'', ''treetype'', ''a positive integer''),
       (CHR ''z'', ''seed'', ''a positive integer'') ]"

text \<open>
  The member that an option assigns, read as a value of one type. The options listed in
  \<open>assigning_options\<close> are those whose case of the \<^verbatim>\<open>switch\<close> assigns to one member.
\<close>

datatype member_value = Text string | Number int | Dbl double | Tree TreeType | Flag bool

definition member_of :: "char \<Rightarrow> ArgumentHandler \<Rightarrow> member_value" where
  "member_of c h =
     (if c = CHR ''C'' then Text (caseweights h)
      else if c = CHR ''D'' then Text (depvarname h)
      else if c = CHR ''F'' then Dbl (fraction h)
      else if c = CHR ''N'' then Flag (savemem h)
      else if c = CHR ''P'' then Text (predict h)
      else if c = CHR ''S'' then Text (splitweights h)
      else if c = CHR ''U'' then Number (nthreads h)
      else if c = CHR ''f'' then Text (file_name h)
      else if c = CHR ''l'' then Number (targetpartitionsize h)
      else if c = CHR ''m'' then Number (mtry h)
      else if c = CHR ''s'' then Text (statusvarname h)
      else if c = CHR ''i'' then Text (instrumentvarname h)
      else if c = CHR ''t'' then Number (ntree h)
      else if c = CHR ''u'' then Flag (replace h)
      else if c = CHR ''v'' then Flag (verbose h)
      else if c = CHR ''w'' then Flag (write_flag h)
      else if c = CHR ''y'' then Tree (treetype h)
      else if c = CHR ''z'' then Number (seed h)
      else Flag False)"

definition assigning_options :: string where
  "assigning_options = ''CDFNPSUflmsituvwyz''"

text \<open>
  The constraints of the spec's data model on the members that the scanner validates,
  with NaN admitted for the two floating-point members (see the checks of the cases
  \<^verbatim>\<open>'F'\<close> and \<^verbatim>\<open>'q'\<close>). An integer member holds its default or a value from its least
  value to the largest \<^verbatim>\<open>int\<close>.
\<close>

definition quantile_ok :: "double \<Rightarrow> bool" where
  "quantile_ok q = (q = NaN \<or> d_less (Finite 0) q \<and> d_less q (Finite 1))"

definition scanned_ok :: "int \<Rightarrow> ArgumentHandler \<Rightarrow> bool" where
  "scanned_ok default_num_threads h =
     ((fraction h = NaN \<or> d_less (Finite 0) (fraction h) \<and> d_le (fraction h) (Finite 1)) \<and>
      1 \<le> ntree h \<and> ntree h \<le> 2147483647 \<and>
      (mtry h = 0 \<or> 1 \<le> mtry h \<and> mtry h \<le> 2147483647) \<and>
      (targetpartitionsize h = 0 \<or>
         1 \<le> targetpartitionsize h \<and> targetpartitionsize h \<le> 2147483647) \<and>
      (nthreads h = default_num_threads \<or> 1 \<le> nthreads h \<and> nthreads h \<le> 2147483647) \<and>
      0 \<le> seed h \<and> seed h \<le> 2147483647 \<and>
      list_all quantile_ok (quantiles h))"


section \<open>The binary exponent\<close>

text \<open>\<open>floor_log2\<close> is the binary exponent that the rounding of \<^verbatim>\<open>std::stod\<close> relies on.\<close>

lemma scale_power_int: "scale 2 k x = x * 2 powi k"
  by (simp add: scale_def power_int_def field_simps)

lemma bitlen_pos: "0 < n \<Longrightarrow> 0 < bitlen n"
  using bitlen_bounds [of n] by (cases "0 < bitlen n") auto

lemma bitlen_powi:
  assumes "0 < n"
  shows "(2::rat) powi (bitlen n - 1) \<le> of_int n \<and> of_int n < (2::rat) powi bitlen n"
proof -
  from bitlen_pos [OF assms] have p: "0 \<le> bitlen n - 1" "0 \<le> bitlen n"
    by simp_all
  from bitlen_bounds [OF assms]
  have "(of_int (2 ^ nat (bitlen n - 1)) :: rat) \<le> of_int n"
    and "(of_int n :: rat) < of_int (2 ^ nat (bitlen n))"
    by (simp_all only: of_int_le_iff of_int_less_iff)
  with p show ?thesis
    by (simp add: power_int_def)
qed

lemma quotient_bounds:
  fixes n d :: rat
  assumes d: "0 < d" and n1: "(2::rat) powi (bn - 1) \<le> n" and n2: "n < 2 powi bn"
    and d1: "(2::rat) powi (bd - 1) \<le> d" and d2: "d < 2 powi bd"
  shows "(2::rat) powi (bn - bd - 1) < n / d \<and> n / d < 2 powi (bn - bd + 1)"
proof
  have pos: "0 < (2::rat) powi j" for j
    by simp
  have "(2::rat) powi (bn - bd - 1) = 2 powi (bn - 1) / 2 powi bd"
    by (simp add: power_int_diff)
  also have "\<dots> < 2 powi (bn - 1) / d"
    using d d2 pos [of "bn - 1"] by (intro divide_strict_left_mono) simp_all
  also have "\<dots> \<le> n / d"
    using d n1 by (intro divide_right_mono) simp_all
  finally show "(2::rat) powi (bn - bd - 1) < n / d" .
  have "n / d < 2 powi bn / d"
    using d n2 by (intro divide_strict_right_mono) simp_all
  also have "\<dots> \<le> 2 powi bn / 2 powi (bd - 1)"
  proof (rule divide_left_mono)
    show "(2::rat) powi (bd - 1) \<le> d" by (rule d1)
    show "0 \<le> (2::rat) powi bn" by simp
    show "0 < d * 2 powi (bd - 1)" using d by simp
  qed
  also have "\<dots> = 2 powi (bn - bd + 1)"
    by (simp add: power_int_diff [symmetric] algebra_simps)
  finally show "n / d < 2 powi (bn - bd + 1)" .
qed

lemma floor_log2_bounds:
  assumes "0 < a"
  shows "scale 2 (floor_log2 a) 1 \<le> a \<and> a < scale 2 (floor_log2 a + 1) 1"
proof -
  obtain n d where q: "quotient_of a = (n, d)"
    by (cases "quotient_of a")
  then have d: "0 < d" and a: "a = of_int n / of_int d"
    by (simp_all add: quotient_of_denom_pos quotient_of_div)
  with assms have n: "0 < n"
    by (simp add: zero_less_divide_iff)
  define k where "k = bitlen n - bitlen d"
  from d have "(0::rat) < of_int d"
    by simp
  from quotient_bounds [OF this] bitlen_powi [OF n] bitlen_powi [OF d]
  have b: "(2::rat) powi (k - 1) < a" "a < 2 powi (k + 1)"
    by (simp_all add: a k_def)
  show ?thesis
  proof (cases "(2::rat) powi k \<le> a")
    case True
    with q b show ?thesis
      by (simp add: floor_log2_def k_def scale_power_int)
  next
    case False
    with q b show ?thesis
      by (simp add: floor_log2_def k_def scale_power_int)
  qed
qed


section \<open>The scanning loop\<close>

lemma scan_append:
  "scan (rs @ rs') h = (case scan rs h of Continue h' \<Rightarrow> scan rs' h' | Stop r \<Rightarrow> Stop r)"
  by (induction rs arbitrary: h) (auto split: step.splits)

lemma switch_default: "switch (CHR ''?'') optarg h = Continue h"
  by (simp add: switch_def)

lemma switch_help: "switch (CHR ''h'') optarg h = Stop (Return (- 1) [HelpText] h)"
  by (simp add: switch_def case_h_def)

lemma switch_version: "switch (CHR ''Z'') optarg h = Stop (Return (- 1) [VersionText] h)"
  by (simp add: switch_def case_Z_def)

subsection \<open>The cases that convert their argument\<close>

lemma switch_F:
  "switch (CHR ''F'') (Some a) h =
     (case stod a of
        Inl e \<Rightarrow> Stop (Throw (runtime_error (illegal_argument ''fraction'' ''a value in (0,1]'')) h)
      | Inr x \<Rightarrow>
          if d_less (Finite 1) x \<or> d_le x (Finite 0)
          then Stop (Throw (runtime_error (illegal_argument ''fraction'' ''a value in (0,1]''))
                       (h\<lparr>fraction := x\<rparr>))
          else Continue (h\<lparr>fraction := x\<rparr>))"
  by (simp add: switch_def case_F_def with_optarg_def catch_all_def illegal_argument_def
           split: sum.splits)

lemma switch_U:
  "switch (CHR ''U'') (Some a) h =
     (case stoi a of
        Inl e \<Rightarrow> Stop (Throw (runtime_error (illegal_argument ''nthreads'' ''a positive integer'')) h)
      | Inr n \<Rightarrow>
          if n < 1
          then Stop (Throw (runtime_error (illegal_argument ''nthreads'' ''a positive integer'')) h)
          else Continue (h\<lparr>nthreads := n\<rparr>))"
  by (simp add: switch_def case_U_def with_optarg_def catch_all_def illegal_argument_def
           split: sum.splits)

lemma switch_l:
  "switch (CHR ''l'') (Some a) h =
     (case stoi a of
        Inl e \<Rightarrow> Stop (Throw (runtime_error
                   (illegal_argument ''targetpartitionsize'' ''a positive integer'')) h)
      | Inr n \<Rightarrow>
          if n < 1
          then Stop (Throw (runtime_error
                 (illegal_argument ''targetpartitionsize'' ''a positive integer'')) h)
          else Continue (h\<lparr>targetpartitionsize := n\<rparr>))"
  by (simp add: switch_def case_l_def with_optarg_def catch_all_def illegal_argument_def
           split: sum.splits)

lemma switch_m:
  "switch (CHR ''m'') (Some a) h =
     (case stoi a of
        Inl e \<Rightarrow> Stop (Throw (runtime_error (illegal_argument ''mtry'' ''a positive integer'')) h)
      | Inr n \<Rightarrow>
          if n < 1
          then Stop (Throw (runtime_error (illegal_argument ''mtry'' ''a positive integer'')) h)
          else Continue (h\<lparr>mtry := n\<rparr>))"
  by (simp add: switch_def case_m_def with_optarg_def catch_all_def illegal_argument_def
           split: sum.splits)

lemma switch_t:
  "switch (CHR ''t'') (Some a) h =
     (case stoi a of
        Inl e \<Rightarrow> Stop (Throw (runtime_error (illegal_argument ''ntree'' ''a positive integer'')) h)
      | Inr n \<Rightarrow>
          if n < 1
          then Stop (Throw (runtime_error (illegal_argument ''ntree'' ''a positive integer'')) h)
          else Continue (h\<lparr>ntree := n\<rparr>))"
  by (simp add: switch_def case_t_def with_optarg_def catch_all_def illegal_argument_def
           split: sum.splits)

lemma switch_y:
  "switch (CHR ''y'') (Some a) h =
     (case stoi a of
        Inl e \<Rightarrow> Stop (Throw (runtime_error (illegal_argument ''treetype'' ''a positive integer'')) h)
      | Inr n \<Rightarrow>
          if n = 11 then Continue (h\<lparr>treetype := TREE_QUANTILE\<rparr>)
          else if n = 15 then Continue (h\<lparr>treetype := TREE_INSTRUMENTAL\<rparr>)
          else Stop (Throw (runtime_error (illegal_argument ''treetype'' ''a positive integer'')) h))"
  by (simp add: switch_def case_y_def with_optarg_def catch_all_def illegal_argument_def
           split: sum.splits)

lemma switch_z:
  "switch (CHR ''z'') (Some a) h =
     (case stoi a of
        Inl e \<Rightarrow> Stop (Throw (runtime_error (illegal_argument ''seed'' ''a positive integer'')) h)
      | Inr n \<Rightarrow>
          if n < 0
          then Stop (Throw (runtime_error (illegal_argument ''seed'' ''a positive integer'')) h)
          else Continue (h\<lparr>seed := n\<rparr>))"
  by (simp add: switch_def case_z_def with_optarg_def catch_all_def illegal_argument_def
           split: sum.splits)

lemma switch_q:
  "switch (CHR ''q'') (Some a) h = push_quantiles (splitString [] a (CHR '','')) h"
  by (simp add: switch_def case_q_def with_optarg_def)

lemma switch_None:
  "switch c None h = Stop (Throw e h') \<Longrightarrow> False"
  by (simp add: switch_def with_optarg_def case_A_def case_C_def case_D_def case_F_def case_N_def
        case_P_def case_S_def case_U_def case_Z_def case_f_def case_h_def case_l_def case_m_def
        case_q_def case_s_def case_i_def case_t_def case_u_def case_v_def case_w_def case_y_def
        case_z_def split: if_splits)

lemma uniform_failure_illegal_argument:
  "uniform_failure name (runtime_error (illegal_argument name expected))"
  by (simp add: uniform_failure_def illegal_argument_def suffix_def)

lemma stod_exceptions: "stod a = Inl e \<Longrightarrow> e = invalid_argument \<or> e = out_of_range"
  by (auto simp: stod_def to_binary64_def Let_def split: prod.splits if_splits option.splits)

lemma push_quantiles_runtime_error:
  "push_quantiles args h = Stop (Throw (runtime_error msg) h') \<Longrightarrow>
     msg = ''All quantiles must lie in the range (0, 1).''"
proof (induction args arbitrary: h)
  case Nil
  then show ?case by simp
next
  case (Cons arg args)
  show ?case
  proof (cases "stod arg")
    case (Inl e)
    with Cons.prems stod_exceptions [OF Inl] show ?thesis by auto
  next
    case (Inr quantile)
    with Cons show ?thesis by (auto split: if_splits)
  qed
qed

lemma push_quantiles_accepted:
  "map stod good = map Inr qs \<Longrightarrow>
   list_all (\<lambda>q. \<not> d_le (Finite 1) q \<and> \<not> d_le q (Finite 0)) qs \<Longrightarrow>
   push_quantiles (good @ rest) h = push_quantiles rest (h\<lparr>quantiles := quantiles h @ qs\<rparr>)"
proof (induction good arbitrary: qs h)
  case Nil
  then show ?case by simp
next
  case (Cons g good)
  then obtain q qs' where qs: "qs = q # qs'" "stod g = Inr q" "map stod good = map Inr qs'"
    by (cases qs) auto
  with Cons.prems have "\<not> d_le (Finite 1) q" "\<not> d_le q (Finite 0)"
    "list_all (\<lambda>q. \<not> d_le (Finite 1) q \<and> \<not> d_le q (Finite 0)) qs'"
    by simp_all
  with qs Cons.IH [of qs' "h\<lparr>quantiles := quantiles h @ [q]\<rparr>"] show ?case
    by simp
qed

subsection \<open>What one pass of the loop changes\<close>

lemma case_A_Continue:
  "case_A optarg h = Continue h' \<longleftrightarrow>
     (\<exists>a. optarg = Some a \<and> h' = h\<lparr>alwayssplitvars := splitString (alwayssplitvars h) a (CHR '','')\<rparr>)"
  by (auto simp: case_A_def with_optarg_def catch_all_def split: option.splits sum.splits)

lemma case_C_Continue:
  "case_C optarg h = Continue h' \<longleftrightarrow>
     (\<exists>a. optarg = Some a \<and> h' = h\<lparr>caseweights := a\<rparr>)"
  by (auto simp: case_C_def with_optarg_def catch_all_def split: option.splits sum.splits)

lemma case_D_Continue:
  "case_D optarg h = Continue h' \<longleftrightarrow>
     (\<exists>a. optarg = Some a \<and> h' = h\<lparr>depvarname := a\<rparr>)"
  by (auto simp: case_D_def with_optarg_def catch_all_def split: option.splits sum.splits)

lemma case_F_Continue:
  "case_F optarg h = Continue h' \<longleftrightarrow>
     (\<exists>a x. optarg = Some a \<and> stod a = Inr x \<and> \<not> d_less (Finite 1) x \<and> \<not> d_le x (Finite 0) \<and> h' = h\<lparr>fraction := x\<rparr>)"
  by (auto simp: case_F_def with_optarg_def catch_all_def Let_def
        split: option.splits sum.splits if_splits)

lemma case_N_Continue:
  "case_N h = Continue h' \<longleftrightarrow>
     (h' = h\<lparr>savemem := True\<rparr>)"
  by (auto simp: case_N_def with_optarg_def catch_all_def split: option.splits sum.splits)

lemma case_P_Continue:
  "case_P optarg h = Continue h' \<longleftrightarrow>
     (\<exists>a. optarg = Some a \<and> h' = h\<lparr>predict := a\<rparr>)"
  by (auto simp: case_P_def with_optarg_def catch_all_def split: option.splits sum.splits)

lemma case_S_Continue:
  "case_S optarg h = Continue h' \<longleftrightarrow>
     (\<exists>a. optarg = Some a \<and> h' = h\<lparr>splitweights := a\<rparr>)"
  by (auto simp: case_S_def with_optarg_def catch_all_def split: option.splits sum.splits)

lemma case_U_Continue:
  "case_U optarg h = Continue h' \<longleftrightarrow>
     (\<exists>a n. optarg = Some a \<and> stoi a = Inr n \<and> 1 \<le> n \<and> h' = h\<lparr>nthreads := n\<rparr>)"
  by (auto simp: case_U_def with_optarg_def catch_all_def split: option.splits sum.splits)

lemma case_Z_Continue:
  "case_Z h = Continue h' \<longleftrightarrow>
     (False)"
  by (auto simp: case_Z_def with_optarg_def catch_all_def split: option.splits sum.splits)

lemma case_f_Continue:
  "case_f optarg h = Continue h' \<longleftrightarrow>
     (\<exists>a. optarg = Some a \<and> h' = h\<lparr>file_name := a\<rparr>)"
  by (auto simp: case_f_def with_optarg_def catch_all_def split: option.splits sum.splits)

lemma case_h_Continue:
  "case_h h = Continue h' \<longleftrightarrow>
     (False)"
  by (auto simp: case_h_def with_optarg_def catch_all_def split: option.splits sum.splits)

lemma case_l_Continue:
  "case_l optarg h = Continue h' \<longleftrightarrow>
     (\<exists>a n. optarg = Some a \<and> stoi a = Inr n \<and> 1 \<le> n \<and> h' = h\<lparr>targetpartitionsize := n\<rparr>)"
  by (auto simp: case_l_def with_optarg_def catch_all_def split: option.splits sum.splits)

lemma case_m_Continue:
  "case_m optarg h = Continue h' \<longleftrightarrow>
     (\<exists>a n. optarg = Some a \<and> stoi a = Inr n \<and> 1 \<le> n \<and> h' = h\<lparr>mtry := n\<rparr>)"
  by (auto simp: case_m_def with_optarg_def catch_all_def split: option.splits sum.splits)

lemma case_q_Continue:
  "case_q optarg h = Continue h' \<longleftrightarrow>
     (\<exists>a. optarg = Some a \<and> push_quantiles (splitString [] a (CHR '','')) h = Continue h')"
  by (auto simp: case_q_def with_optarg_def catch_all_def split: option.splits sum.splits)

lemma case_s_Continue:
  "case_s optarg h = Continue h' \<longleftrightarrow>
     (\<exists>a. optarg = Some a \<and> h' = h\<lparr>statusvarname := a\<rparr>)"
  by (auto simp: case_s_def with_optarg_def catch_all_def split: option.splits sum.splits)

lemma case_i_Continue:
  "case_i optarg h = Continue h' \<longleftrightarrow>
     (\<exists>a. optarg = Some a \<and> h' = h\<lparr>instrumentvarname := a\<rparr>)"
  by (auto simp: case_i_def with_optarg_def catch_all_def split: option.splits sum.splits)

lemma case_t_Continue:
  "case_t optarg h = Continue h' \<longleftrightarrow>
     (\<exists>a n. optarg = Some a \<and> stoi a = Inr n \<and> 1 \<le> n \<and> h' = h\<lparr>ntree := n\<rparr>)"
  by (auto simp: case_t_def with_optarg_def catch_all_def split: option.splits sum.splits)

lemma case_u_Continue:
  "case_u h = Continue h' \<longleftrightarrow>
     (h' = h\<lparr>replace := False\<rparr>)"
  by (auto simp: case_u_def with_optarg_def catch_all_def split: option.splits sum.splits)

lemma case_v_Continue:
  "case_v h = Continue h' \<longleftrightarrow>
     (h' = h\<lparr>verbose := True\<rparr>)"
  by (auto simp: case_v_def with_optarg_def catch_all_def split: option.splits sum.splits)

lemma case_w_Continue:
  "case_w h = Continue h' \<longleftrightarrow>
     (h' = h\<lparr>write_flag := True\<rparr>)"
  by (auto simp: case_w_def with_optarg_def catch_all_def split: option.splits sum.splits)

lemma case_y_Continue:
  "case_y optarg h = Continue h' \<longleftrightarrow>
     (\<exists>a. optarg = Some a \<and>
        (stoi a = Inr 11 \<and> h' = h\<lparr>treetype := TREE_QUANTILE\<rparr> \<or>
         stoi a = Inr 15 \<and> h' = h\<lparr>treetype := TREE_INSTRUMENTAL\<rparr>))"
  by (auto simp: case_y_def with_optarg_def catch_all_def split: option.splits sum.splits)

lemma case_z_Continue:
  "case_z optarg h = Continue h' \<longleftrightarrow>
     (\<exists>a n. optarg = Some a \<and> stoi a = Inr n \<and> 0 \<le> n \<and> h' = h\<lparr>seed := n\<rparr>)"
  by (auto simp: case_z_def with_optarg_def catch_all_def split: option.splits sum.splits)

lemmas case_Continue =
  case_A_Continue case_C_Continue case_D_Continue case_F_Continue
  case_N_Continue case_P_Continue case_S_Continue case_U_Continue
  case_Z_Continue case_f_Continue case_h_Continue case_l_Continue
  case_m_Continue case_q_Continue case_s_Continue case_i_Continue
  case_t_Continue case_u_Continue case_v_Continue case_w_Continue
  case_y_Continue case_z_Continue

lemma push_quantiles_appends:
  "push_quantiles args h = Continue h' \<Longrightarrow>
     \<exists>vs. map stod args = map Inr vs \<and> h' = h\<lparr>quantiles := quantiles h @ vs\<rparr>"
proof (induction args arbitrary: h)
  case Nil
  then show ?case by simp
next
  case (Cons arg args)
  from Cons.prems obtain q where q: "stod arg = Inr q"
    and rest: "push_quantiles args (h\<lparr>quantiles := quantiles h @ [q]\<rparr>) = Continue h'"
    by (auto split: sum.splits if_splits)
  from Cons.IH [OF rest] obtain vs where
    "map stod args = map Inr vs" "h' = h\<lparr>quantiles := quantiles h @ q # vs\<rparr>"
    by auto
  with q show ?case
    by (intro exI [of _ "q # vs"]) simp
qed




lemma switch_member_frame:
  "switch d y h = Continue h' \<Longrightarrow> c \<noteq> d \<Longrightarrow> member_of c h' = member_of c h"
  apply (simp add: switch_def case_Continue split: if_splits)
  apply (auto simp: member_of_def cong: if_cong split del: if_split dest!: push_quantiles_appends)
  done

lemma switch_member_determined:
  "c \<in> set assigning_options \<Longrightarrow> switch c x h = Continue h1 \<Longrightarrow>
     switch c x h0 = Continue h2 \<Longrightarrow> member_of c h1 = member_of c h2"
  apply (simp add: assigning_options_def)
  apply (elim disjE)
  apply (auto simp: switch_def case_Continue member_of_def)
  done

lemma switch_quantiles_prefix:
  "switch d y h = Continue h' \<Longrightarrow> prefix (quantiles h) (quantiles h')"
  apply (simp add: switch_def case_Continue split: if_splits)
  apply (auto dest!: push_quantiles_appends)
  done

lemma scan_member_frame:
  "scan rs h = Continue h' \<Longrightarrow> c \<notin> fst ` set rs \<Longrightarrow> member_of c h' = member_of c h"
proof (induction rs arbitrary: h)
  case Nil
  then show ?case by simp
next
  case (Cons r rs)
  obtain d y where r: "r = (d, y)"
    by (cases r)
  with Cons.prems obtain h1 where h1: "switch d y h = Continue h1" "scan rs h1 = Continue h'"
    by (auto split: step.splits)
  from Cons.prems r have "c \<noteq> d" "c \<notin> fst ` set rs"
    by auto
  with h1 Cons.IH [of h1] switch_member_frame [of d y h h1 c] show ?case
    by simp
qed

lemma scan_quantiles_prefix:
  "scan rs h = Continue h' \<Longrightarrow> prefix (quantiles h) (quantiles h')"
proof (induction rs arbitrary: h)
  case Nil
  then show ?case by simp
next
  case (Cons r rs)
  obtain d y where r: "r = (d, y)"
    by (cases r)
  with Cons.prems obtain h1 where h1: "switch d y h = Continue h1" "scan rs h1 = Continue h'"
    by (auto split: step.splits)
  with Cons.IH [of h1] switch_quantiles_prefix [of d y h h1] show ?case
    by (auto intro: prefix_order.trans)
qed

subsection \<open>What the loop preserves\<close>

lemma stoi_range: "stoi a = Inr n \<Longrightarrow> - 2147483648 \<le> n \<and> n \<le> 2147483647"
  by (auto simp: stoi_def Let_def split: prod.splits if_splits)

lemma accepted_quantile:
  "\<not> d_le (Finite 1) q \<and> \<not> d_le q (Finite 0) \<longleftrightarrow> quantile_ok q"
  by (cases q) (auto simp: d_le_def quantile_ok_def)

lemma accepted_fraction:
  "\<not> d_less (Finite 1) x \<and> \<not> d_le x (Finite 0) \<longleftrightarrow>
     x = NaN \<or> d_less (Finite 0) x \<and> d_le x (Finite 1)"
  by (cases x) (auto simp: d_le_def)

lemma push_quantiles_ok:
  "push_quantiles args h = Continue h' \<Longrightarrow>
     \<exists>vs. list_all quantile_ok vs \<and> h' = h\<lparr>quantiles := quantiles h @ vs\<rparr>"
proof (induction args arbitrary: h)
  case Nil
  then show ?case
    by (intro exI [of _ "[]"]) simp
next
  case (Cons arg args)
  from Cons.prems obtain q where q: "stod arg = Inr q" "quantile_ok q"
    and rest: "push_quantiles args (h\<lparr>quantiles := quantiles h @ [q]\<rparr>) = Continue h'"
    by (auto simp: accepted_quantile [symmetric] split: sum.splits if_splits)
  from Cons.IH [OF rest] obtain vs where
    "list_all quantile_ok vs" "h' = h\<lparr>quantiles := quantiles h @ q # vs\<rparr>"
    by auto
  with q show ?case
    by (intro exI [of _ "q # vs"]) simp
qed

lemma scanned_ok_other [simp]:
  "scanned_ok d (h\<lparr>alwayssplitvars := vs\<rparr>) = scanned_ok d h"
  "scanned_ok d (h\<lparr>caseweights := a\<rparr>) = scanned_ok d h"
  "scanned_ok d (h\<lparr>depvarname := a\<rparr>) = scanned_ok d h"
  "scanned_ok d (h\<lparr>savemem := b\<rparr>) = scanned_ok d h"
  "scanned_ok d (h\<lparr>predict := a\<rparr>) = scanned_ok d h"
  "scanned_ok d (h\<lparr>splitweights := a\<rparr>) = scanned_ok d h"
  "scanned_ok d (h\<lparr>file_name := a\<rparr>) = scanned_ok d h"
  "scanned_ok d (h\<lparr>statusvarname := a\<rparr>) = scanned_ok d h"
  "scanned_ok d (h\<lparr>instrumentvarname := a\<rparr>) = scanned_ok d h"
  "scanned_ok d (h\<lparr>replace := b\<rparr>) = scanned_ok d h"
  "scanned_ok d (h\<lparr>verbose := b\<rparr>) = scanned_ok d h"
  "scanned_ok d (h\<lparr>write_flag := b\<rparr>) = scanned_ok d h"
  "scanned_ok d (h\<lparr>treetype := t\<rparr>) = scanned_ok d h"
  by (simp_all add: scanned_ok_def)

lemma scanned_ok_number:
  "scanned_ok d h \<Longrightarrow> 1 \<le> n \<Longrightarrow> n \<le> 2147483647 \<Longrightarrow> scanned_ok d (h\<lparr>ntree := n\<rparr>)"
  "scanned_ok d h \<Longrightarrow> 1 \<le> n \<Longrightarrow> n \<le> 2147483647 \<Longrightarrow> scanned_ok d (h\<lparr>mtry := n\<rparr>)"
  "scanned_ok d h \<Longrightarrow> 1 \<le> n \<Longrightarrow> n \<le> 2147483647 \<Longrightarrow>
     scanned_ok d (h\<lparr>targetpartitionsize := n\<rparr>)"
  "scanned_ok d h \<Longrightarrow> 1 \<le> n \<Longrightarrow> n \<le> 2147483647 \<Longrightarrow> scanned_ok d (h\<lparr>nthreads := n\<rparr>)"
  "scanned_ok d h \<Longrightarrow> 0 \<le> n \<Longrightarrow> n \<le> 2147483647 \<Longrightarrow> scanned_ok d (h\<lparr>seed := n\<rparr>)"
  by (simp_all add: scanned_ok_def)

lemma scanned_ok_fraction:
  "scanned_ok d h \<Longrightarrow> \<not> d_less (Finite 1) x \<Longrightarrow> \<not> d_le x (Finite 0) \<Longrightarrow>
     scanned_ok d (h\<lparr>fraction := x\<rparr>)"
  using accepted_fraction [of x] by (simp add: scanned_ok_def)

lemma scanned_ok_quantiles:
  "scanned_ok d h \<Longrightarrow> list_all quantile_ok vs \<Longrightarrow>
     scanned_ok d (h\<lparr>quantiles := quantiles h @ vs\<rparr>)"
  by (simp add: scanned_ok_def)

lemma switch_scanned_ok:
  "scanned_ok d h \<Longrightarrow> switch c y h = Continue h' \<Longrightarrow> scanned_ok d h'"
  apply (simp add: switch_def case_Continue split: if_splits)
  apply (auto simp: scanned_ok_number scanned_ok_fraction scanned_ok_quantiles
           dest!: push_quantiles_ok dest: stoi_range)
  done

lemma scan_scanned_ok:
  "scanned_ok d h \<Longrightarrow> scan rs h = Continue h' \<Longrightarrow> scanned_ok d h'"
proof (induction rs arbitrary: h)
  case Nil
  then show ?case by simp
next
  case (Cons r rs)
  obtain c y where r: "r = (c, y)"
    by (cases r)
  with Cons.prems obtain h1 where h1: "switch c y h = Continue h1" "scan rs h1 = Continue h'"
    by (auto split: step.splits)
  from switch_scanned_ok [OF Cons.prems(1) h1(1)] Cons.IH [of h1] h1(2) show ?case
    by simp
qed

lemma push_quantiles_Return: "push_quantiles args h = Stop (Return n out h') \<Longrightarrow> False"
  by (induction args arbitrary: h) (auto split: sum.splits if_splits)

lemma switch_Return: "switch c y h = Stop (Return n out h') \<Longrightarrow> n = - 1"
proof (cases y)
  case None
  assume "switch c y h = Stop (Return n out h')"
  with None show ?thesis
    by (simp add: switch_def with_optarg_def case_A_def case_C_def case_D_def case_F_def
          case_N_def case_P_def case_S_def case_U_def case_Z_def case_f_def case_h_def
          case_l_def case_m_def case_q_def case_s_def case_i_def case_t_def case_u_def
          case_v_def case_w_def case_y_def case_z_def split: if_splits)
next
  case (Some a)
  assume r: "switch c y h = Stop (Return n out h')"
  show ?thesis
  proof (cases "c \<in> set ''FUlmqtyz''")
    case True
    with r Some push_quantiles_Return [of "splitString [] a (CHR '','')" h n out h']
    show ?thesis
      by (auto simp: switch_F switch_U switch_l switch_m switch_q switch_t switch_y switch_z
            split: sum.splits if_splits)
  next
    case False
    with r Some show ?thesis
      by (simp add: switch_def with_optarg_def case_A_def case_C_def case_D_def case_N_def
            case_P_def case_S_def case_Z_def case_f_def case_h_def case_s_def case_i_def
            case_u_def case_v_def case_w_def split: if_splits)
  qed
qed

lemma scan_Return: "scan rs h = Stop (Return n out h') \<Longrightarrow> n = - 1"
proof (induction rs arbitrary: h)
  case Nil
  then show ?case by simp
next
  case (Cons r rs)
  obtain c y where "r = (c, y)"
    by (cases r)
  with Cons show ?case
    by (auto split: step.splits dest: switch_Return)
qed


section \<open>The scanner: the quantiles option\<close>

text \<open>
  C1, the claim as it is stated: when an element of the list is malformed or not strictly
  between 0 and 1 the option fails and no element of the list is stored. For the list
  \<^verbatim>\<open>0.5,1.0\<close> the option fails, but 0.5 has been stored before the failure.
\<close>

theorem quantiles_partial_store_counterexample:
  "quantiles (new_ArgumentHandler 0 [''grf'', ''--quantiles'', ''0.5,1.0'']) = [] \<and>
   processArguments (new_ArgumentHandler 0 [''grf'', ''--quantiles'', ''0.5,1.0'']) =
     Throw (runtime_error ''All quantiles must lie in the range (0, 1).'')
       ((new_ArgumentHandler 0 [''grf'', ''--quantiles'', ''0.5,1.0''])\<lparr>quantiles := [Finite (1 / 2)]\<rparr>)"
  by code_simp

text \<open>
  C1, amended. The elements of the list are handled one after the other. When an element
  cannot be converted by \<^verbatim>\<open>std::stod\<close>, or its value is at least 1 or at most 0, the
  option fails at the first such element: the exception of the conversion, or the
  \<^verbatim>\<open>std::runtime_error\<close> ``All quantiles must lie in the range (0, 1).'', leaves the
  scan. The values of the elements before that element have been added to the end of
  \<^verbatim>\<open>quantiles\<close>; that element and the elements after it are not stored.
\<close>

theorem quantiles_fail_at_first_bad_element:
  "splitString [] a (CHR '','') = good @ bad # rest \<and> map stod good = map Inr qs \<and>
   list_all (\<lambda>q. \<not> d_le (Finite 1) q \<and> \<not> d_le q (Finite 0)) qs \<longrightarrow>
     (stod bad = Inl e \<longrightarrow>
        scan ((CHR ''q'', Some a) # rs) h =
          Stop (Throw e (h\<lparr>quantiles := quantiles h @ qs\<rparr>))) \<and>
     (stod bad = Inr q \<and> (d_le (Finite 1) q \<or> d_le q (Finite 0)) \<longrightarrow>
        scan ((CHR ''q'', Some a) # rs) h =
          Stop (Throw (runtime_error ''All quantiles must lie in the range (0, 1).'')
                 (h\<lparr>quantiles := quantiles h @ qs\<rparr>)))"
  by (auto simp: switch_q push_quantiles_accepted)

theorem quantiles_fail_at_first_bad_element_witness:
  "splitString [] ''0.5,1.0,0.25'' (CHR '','') = [''0.5''] @ ''1.0'' # [''0.25''] \<and>
   map stod [''0.5''] = map Inr [Finite (1 / 2)] \<and>
   list_all (\<lambda>q. \<not> d_le (Finite 1) q \<and> \<not> d_le q (Finite 0)) [Finite (1 / 2)] \<and>
   stod ''1.0'' = Inr (Finite 1) \<and> d_le (Finite 1) (Finite 1) \<and>
   scan [(CHR ''q'', Some ''0.5,1.0,0.25'')] (new_ArgumentHandler 0 []) =
     Stop (Throw (runtime_error ''All quantiles must lie in the range (0, 1).'')
       ((new_ArgumentHandler 0 [])\<lparr>quantiles := [Finite (1 / 2)]\<rparr>)) \<and>
   splitString [] ''0.25,0.5,x'' (CHR '','') = [''0.25'', ''0.5''] @ ''x'' # [] \<and>
   map stod [''0.25'', ''0.5''] = map Inr [Finite (1 / 4), Finite (1 / 2)] \<and>
   stod ''x'' = Inl invalid_argument \<and>
   scan [(CHR ''q'', Some ''0.25,0.5,x'')] (new_ArgumentHandler 0 []) =
     Stop (Throw invalid_argument
       ((new_ArgumentHandler 0 [])\<lparr>quantiles := [Finite (1 / 4), Finite (1 / 2)]\<rparr>))"
proof -
  let ?h = "new_ArgumentHandler 0 []"
  have s: "splitString [] ''0.5,1.0,0.25'' (CHR '','') = [''0.5''] @ ''1.0'' # [''0.25'']"
    "splitString [] ''0.25,0.5,x'' (CHR '','') = [''0.25'', ''0.5''] @ ''x'' # []"
    by code_simp+
  have d: "stod ''0.5'' = Inr (Finite (1 / 2))" "stod ''0.25'' = Inr (Finite (1 / 4))"
    "stod ''1.0'' = Inr (Finite 1)" "stod ''x'' = Inl invalid_argument"
    by code_simp+
  have q: "quantiles ?h = []"
    by (simp add: new_ArgumentHandler_def)
  show ?thesis
    using s d q
      quantiles_fail_at_first_bad_element [where a = "''0.5,1.0,0.25''" and good = "[''0.5'']"
        and bad = "''1.0''" and rest = "[''0.25'']" and qs = "[Finite (1 / 2)]"
        and q = "Finite 1" and rs = "[]" and h = ?h]
      quantiles_fail_at_first_bad_element [where a = "''0.25,0.5,x''"
        and good = "[''0.25'', ''0.5'']" and bad = "''x''" and rest = "[]"
        and qs = "[Finite (1 / 4), Finite (1 / 2)]" and e = invalid_argument and rs = "[]"
        and h = ?h]
    by (simp add: d_le_def)
qed


section \<open>The scanner: unknown options, help and version\<close>

text \<open>
  C3, the claim as it is stated: an unrecognized option spelling makes the scan fail with
  an unknown-option error. It does not: \<^verbatim>\<open>--bogus\<close> is passed over, the option after it is
  processed and \<^verbatim>\<open>processArguments\<close> returns 0.
\<close>


theorem unrecognized_option_counterexample:
  "processArguments (new_ArgumentHandler 0 [''grf'', ''--bogus'', ''--ntree'', ''7'']) =
     Return 0 [] ((new_ArgumentHandler 0 [''grf'', ''--bogus'', ''--ntree'', ''7''])\<lparr>ntree := 7\<rparr>)"
  by code_simp


text \<open>
  C3, amended. \<^verbatim>\<open>getopt_long\<close> answers an option spelling that it does not find in the
  tables with the code \<^verbatim>\<open>'?'\<close>. The \<^verbatim>\<open>switch\<close> has no case for this code, so its default
  branch leaves the configuration as it is and the loop goes on with the next option:
  the outcome of \<^verbatim>\<open>processArguments\<close> is the outcome of the scan of the other options, and
  where these are processed without failure it returns 0.
\<close>

theorem unrecognized_option_ignored:
  "(long_lookup (takeWhile (\<lambda>x. x \<noteq> CHR ''='') body) = None \<longrightarrow>
      long_option body rest = ((CHR ''?'', None), rest)) \<and>
   (short_lookup short_options c = None \<longrightarrow>
      hd (fst (short_option (c # cs) rest)) = (CHR ''?'', None)) \<and>
   switch (CHR ''?'') optarg h = Continue h \<and>
   (getopt_long (tl (argv h)) = (rs @ (CHR ''?'', optarg) # rs', others) \<longrightarrow>
      processArguments h =
        (case scan (rs @ rs') h of
           Stop r \<Rightarrow> r
         | Continue h' \<Rightarrow> Return 0 (map OtherParameter others) h'))"
proof -
  have "scan (rs @ (CHR ''?'', optarg) # rs') h = scan (rs @ rs') h"
    by (simp add: scan_append switch_default split: step.splits)
  then have "getopt_long (tl (argv h)) = (rs @ (CHR ''?'', optarg) # rs', others) \<longrightarrow>
      processArguments h =
        (case scan (rs @ rs') h of
           Stop r \<Rightarrow> r
         | Continue h' \<Rightarrow> Return 0 (map OtherParameter others) h')"
    by (simp add: processArguments_def)
  moreover have "long_lookup (takeWhile (\<lambda>x. x \<noteq> CHR ''='') body) = None \<longrightarrow>
      long_option body rest = ((CHR ''?'', None), rest)"
    by (simp add: long_option_def)
  moreover have "short_lookup short_options c = None \<longrightarrow>
      hd (fst (short_option (c # cs) rest)) = (CHR ''?'', None)"
    by (simp split: prod.splits)
  ultimately show ?thesis
    by (simp add: switch_default)
qed

theorem unrecognized_option_ignored_witness:
  "long_lookup (takeWhile (\<lambda>x. x \<noteq> CHR ''='') ''bogus=1'') = None \<and>
   long_option ''bogus=1'' [''--mtry'', ''3''] = ((CHR ''?'', None), [''--mtry'', ''3'']) \<and>
   short_lookup short_options (CHR ''q'') = None \<and>
   getopt_long (tl (argv (new_ArgumentHandler 0 [''grf'', ''-q'', ''--bogus=1'', ''--mtry'', ''3'']))) =
     ([(CHR ''?'', None)] @ (CHR ''?'', None) # [(CHR ''m'', Some ''3'')], []) \<and>
   processArguments (new_ArgumentHandler 0 [''grf'', ''-q'', ''--bogus=1'', ''--mtry'', ''3'']) =
     Return 0 [] ((new_ArgumentHandler 0 [''grf'', ''-q'', ''--bogus=1'', ''--mtry'', ''3''])\<lparr>mtry := 3\<rparr>)"
proof -
  let ?h = "new_ArgumentHandler 0 [''grf'', ''-q'', ''--bogus=1'', ''--mtry'', ''3'']"
  have l: "long_lookup (takeWhile (\<lambda>x. x \<noteq> CHR ''='') ''bogus=1'') = None"
    by code_simp
  have s: "short_lookup short_options (CHR ''q'') = None"
    by code_simp
  have g: "getopt_long (tl (argv ?h)) =
      ([(CHR ''?'', None)] @ (CHR ''?'', None) # [(CHR ''m'', Some ''3'')], [])"
    by code_simp
  have r: "scan ([(CHR ''?'', None)] @ [(CHR ''m'', Some ''3'')]) ?h = Continue (?h\<lparr>mtry := 3\<rparr>)"
    by code_simp
  show ?thesis
    using unrecognized_option_ignored
      [where body = "''bogus=1''" and rest = "[''--mtry'', ''3'']" and c = "CHR ''q''"
         and optarg = None and h = ?h and rs = "[(CHR ''?'', None)]"
         and rs' = "[(CHR ''m'', Some ''3'')]" and others = "[]"] l s g r
    by simp
qed


text \<open>
  C2, the claim as it is stated: with the help option anywhere among the arguments the
  outcome is the informational exit, never a parse error. It is a parse error when an
  invalid option stands before \<^verbatim>\<open>--help\<close>.
\<close>


theorem help_position_counterexample:
  "processArguments (new_ArgumentHandler 0 [''grf'', ''--ntree'', ''0'', ''--help'']) =
     Throw (runtime_error
       ''Illegal argument for option 'ntree'. Please give a positive integer. See '--help' for details.'')
       (new_ArgumentHandler 0 [''grf'', ''--ntree'', ''0'', ''--help''])"
  by code_simp


text \<open>
  C2, amended. When the options before the first help (or version) option are processed
  without failure, \<^verbatim>\<open>processArguments\<close> prints the help (or version) text and returns -1,
  whatever follows that option: nothing after it is processed, and the configuration is
  as the options before it left it. When an option before it fails or ends the scan,
  that is the outcome.
\<close>

theorem help_or_version_exit:
  "getopt_long (tl (argv h)) = (rs @ (c, optarg) # rs', others) \<and>
   (c = CHR ''h'' \<or> c = CHR ''Z'') \<longrightarrow>
     (scan rs h = Continue h' \<longrightarrow>
        processArguments h =
          Return (- 1) [if c = CHR ''h'' then HelpText else VersionText] h') \<and>
     (scan rs h = Stop r \<longrightarrow> processArguments h = r)"
  by (auto simp: processArguments_def scan_append switch_help switch_version)

theorem help_or_version_exit_witness:
  "getopt_long (tl (argv (new_ArgumentHandler 0 [''grf'', ''--ntree'', ''7'', ''--help'', ''--ntree'', ''0'']))) =
     ([(CHR ''t'', Some ''7'')] @ (CHR ''h'', None) # [(CHR ''t'', Some ''0'')], []) \<and>
   scan [(CHR ''t'', Some ''7'')] (new_ArgumentHandler 0 [''grf'', ''--ntree'', ''7'', ''--help'', ''--ntree'', ''0'']) =
     Continue ((new_ArgumentHandler 0 [''grf'', ''--ntree'', ''7'', ''--help'', ''--ntree'', ''0''])\<lparr>ntree := 7\<rparr>) \<and>
   processArguments (new_ArgumentHandler 0 [''grf'', ''--ntree'', ''7'', ''--help'', ''--ntree'', ''0'']) =
     Return (- 1) [HelpText]
       ((new_ArgumentHandler 0 [''grf'', ''--ntree'', ''7'', ''--help'', ''--ntree'', ''0''])\<lparr>ntree := 7\<rparr>)"
proof -
  let ?h = "new_ArgumentHandler 0 [''grf'', ''--ntree'', ''7'', ''--help'', ''--ntree'', ''0'']"
  have g: "getopt_long (tl (argv ?h)) =
      ([(CHR ''t'', Some ''7'')] @ (CHR ''h'', None) # [(CHR ''t'', Some ''0'')], [])"
    by code_simp
  have s: "scan [(CHR ''t'', Some ''7'')] ?h = Continue (?h\<lparr>ntree := 7\<rparr>)"
    by code_simp
  show ?thesis
    using help_or_version_exit
      [where h = ?h and rs = "[(CHR ''t'', Some ''7'')]" and c = "CHR ''h''" and optarg = None
         and rs' = "[(CHR ''t'', Some ''0'')]" and others = "[]"
         and h' = "?h\<lparr>ntree := 7\<rparr>"] g s
    by simp
qed


section \<open>The scanner: failures of option values\<close>

text \<open>
  C4, the claim as it is stated: every conversion or range failure, also one of the
  quantiles option, is the uniform failure that names the option. A quantile out of
  range fails with a message of its own, and a quantile that cannot be converted fails
  with the exception of the library.
\<close>

theorem quantiles_failure_counterexample:
  "processArguments (new_ArgumentHandler 0 [''grf'', ''--quantiles'', ''1.5'']) =
     Throw (runtime_error ''All quantiles must lie in the range (0, 1).'')
       (new_ArgumentHandler 0 [''grf'', ''--quantiles'', ''1.5'']) \<and>
   \<not> uniform_failure ''quantiles'' (runtime_error ''All quantiles must lie in the range (0, 1).'') \<and>
   processArguments (new_ArgumentHandler 0 [''grf'', ''--quantiles'', ''abc'']) =
     Throw invalid_argument (new_ArgumentHandler 0 [''grf'', ''--quantiles'', ''abc'']) \<and>
   \<not> uniform_failure ''quantiles'' invalid_argument"
  by code_simp

text \<open>
  C4, amended. Whenever one of the options fraction, nthreads, targetpartitionsize, mtry,
  ntree, treetype and seed makes the scan fail, the exception is the uniform failure:
  a \<^verbatim>\<open>std::runtime_error\<close> with the message ``Illegal argument for option 'NAME'. Please
  give TEXT. See '--help' for details.'', where NAME is the external name of the option
  and TEXT is ``a value in (0,1]'' for fraction and ``a positive integer'' for the six
  others. A \<^verbatim>\<open>std::runtime_error\<close> of the quantiles option has the message ``All
  quantiles must lie in the range (0, 1).''. No other option makes the scan fail with an
  exception.
\<close>

theorem malformed_option_failures:
  "((c, name, expected) \<in> set failure_texts \<longrightarrow>
      long_lookup name = Some (name, required_argument, c) \<and>
      (switch c optarg h = Stop (Throw e h') \<longrightarrow>
         e = runtime_error (illegal_argument name expected) \<and> uniform_failure name e)) \<and>
   (switch (CHR ''q'') optarg h = Stop (Throw (runtime_error msg) h') \<longrightarrow>
      msg = ''All quantiles must lie in the range (0, 1).'') \<and>
   (switch c optarg h = Stop (Throw e h') \<longrightarrow> c \<in> set ''FUlmqtyz'')"
proof -
  have names:
    "long_lookup ''fraction'' = Some (''fraction'', required_argument, CHR ''F'')"
    "long_lookup ''nthreads'' = Some (''nthreads'', required_argument, CHR ''U'')"
    "long_lookup ''targetpartitionsize'' = Some (''targetpartitionsize'', required_argument, CHR ''l'')"
    "long_lookup ''mtry'' = Some (''mtry'', required_argument, CHR ''m'')"
    "long_lookup ''ntree'' = Some (''ntree'', required_argument, CHR ''t'')"
    "long_lookup ''treetype'' = Some (''treetype'', required_argument, CHR ''y'')"
    "long_lookup ''seed'' = Some (''seed'', required_argument, CHR ''z'')"
    by code_simp+
  have texts: "(c, name, expected) \<in> set failure_texts \<Longrightarrow>
      switch c optarg h = Stop (Throw e h') \<Longrightarrow> e = runtime_error (illegal_argument name expected)"
  proof (cases optarg)
    case None
    assume "switch c optarg h = Stop (Throw e h')"
    with None show ?thesis using switch_None by blast
  next
    case (Some a)
    assume "(c, name, expected) \<in> set failure_texts" "switch c optarg h = Stop (Throw e h')"
    with Some show ?thesis
      by (auto simp: failure_texts_def switch_F switch_U switch_l switch_m switch_t switch_y
            switch_z split: sum.splits if_splits)
  qed
  have first: "(c, name, expected) \<in> set failure_texts \<longrightarrow>
      long_lookup name = Some (name, required_argument, c) \<and>
      (switch c optarg h = Stop (Throw e h') \<longrightarrow>
         e = runtime_error (illegal_argument name expected) \<and> uniform_failure name e)"
  proof (intro impI conjI)
    assume "(c, name, expected) \<in> set failure_texts"
    then show "long_lookup name = Some (name, required_argument, c)"
      using names by (auto simp: failure_texts_def)
  next
    assume "(c, name, expected) \<in> set failure_texts" "switch c optarg h = Stop (Throw e h')"
    then show "e = runtime_error (illegal_argument name expected)"
      by (rule texts)
    then show "uniform_failure name e"
      by (simp add: uniform_failure_illegal_argument)
  qed
  have second: "switch (CHR ''q'') optarg h = Stop (Throw (runtime_error msg) h') \<longrightarrow>
      msg = ''All quantiles must lie in the range (0, 1).''"
  proof (cases optarg)
    case None
    then show ?thesis using switch_None by blast
  next
    case (Some a)
    then show ?thesis
      using push_quantiles_runtime_error by (auto simp: switch_q)
  qed
  have third: "switch c optarg h = Stop (Throw e h') \<longrightarrow> c \<in> set ''FUlmqtyz''"
  proof (cases optarg)
    case None
    then show ?thesis using switch_None by blast
  next
    case (Some a)
    then show ?thesis
      by (simp add: switch_def with_optarg_def case_A_def case_C_def case_D_def case_N_def
            case_P_def case_S_def case_Z_def case_f_def case_h_def case_s_def case_i_def
            case_u_def case_v_def case_w_def split: if_splits)
  qed
  from first second third show ?thesis
    by blast
qed

theorem malformed_option_failures_witness:
  "(CHR ''F'', ''fraction'', ''a value in (0,1]'') \<in> set failure_texts \<and>
   switch (CHR ''F'') (Some ''1.5'') (new_ArgumentHandler 0 []) =
     Stop (Throw (runtime_error
       ''Illegal argument for option 'fraction'. Please give a value in (0,1]. See '--help' for details.'')
       ((new_ArgumentHandler 0 [])\<lparr>fraction := Finite (3 / 2)\<rparr>)) \<and>
   uniform_failure ''fraction'' (runtime_error
       ''Illegal argument for option 'fraction'. Please give a value in (0,1]. See '--help' for details.'') \<and>
   (CHR ''y'', ''treetype'', ''a positive integer'') \<in> set failure_texts \<and>
   switch (CHR ''y'') (Some ''one'') (new_ArgumentHandler 0 []) =
     Stop (Throw (runtime_error
       ''Illegal argument for option 'treetype'. Please give a positive integer. See '--help' for details.'')
       (new_ArgumentHandler 0 [])) \<and>
   switch (CHR ''q'') (Some ''0.5,2'') (new_ArgumentHandler 0 []) =
     Stop (Throw (runtime_error ''All quantiles must lie in the range (0, 1).'')
       ((new_ArgumentHandler 0 [])\<lparr>quantiles := [Finite (1 / 2)]\<rparr>)) \<and>
   CHR ''q'' \<in> set ''FUlmqtyz''"
proof -
  let ?h = "new_ArgumentHandler 0 []"
  have F: "(CHR ''F'', ''fraction'', ''a value in (0,1]'') \<in> set failure_texts"
    and y: "(CHR ''y'', ''treetype'', ''a positive integer'') \<in> set failure_texts"
    by (simp_all add: failure_texts_def)
  have sF: "switch (CHR ''F'') (Some ''1.5'') ?h =
      Stop (Throw (runtime_error
        ''Illegal argument for option 'fraction'. Please give a value in (0,1]. See '--help' for details.'')
        (?h\<lparr>fraction := Finite (3 / 2)\<rparr>))"
    by code_simp
  have sy: "switch (CHR ''y'') (Some ''one'') ?h =
      Stop (Throw (runtime_error
        ''Illegal argument for option 'treetype'. Please give a positive integer. See '--help' for details.'')
        ?h)"
    by code_simp
  have sq: "switch (CHR ''q'') (Some ''0.5,2'') ?h =
      Stop (Throw (runtime_error ''All quantiles must lie in the range (0, 1).'')
        (?h\<lparr>quantiles := [Finite (1 / 2)]\<rparr>))"
    by code_simp
  show ?thesis
    using F y sF sy sq
      malformed_option_failures [where c = "CHR ''F''" and name = "''fraction''"
        and expected = "''a value in (0,1]''" and optarg = "Some ''1.5''" and h = ?h
        and h' = "?h\<lparr>fraction := Finite (3 / 2)\<rparr>"
        and e = "runtime_error ''Illegal argument for option 'fraction'. Please give a value in (0,1]. See '--help' for details.''"]
      malformed_option_failures [where c = "CHR ''y''" and name = "''treetype''"
        and expected = "''a positive integer''" and optarg = "Some ''one''" and h = ?h and h' = ?h
        and e = "runtime_error ''Illegal argument for option 'treetype'. Please give a positive integer. See '--help' for details.''"]
      malformed_option_failures [where c = "CHR ''q''" and optarg = "Some ''0.5,2''" and h = ?h
        and h' = "?h\<lparr>quantiles := [Finite (1 / 2)]\<rparr>"
        and e = "runtime_error ''All quantiles must lie in the range (0, 1).''"
        and msg = "''All quantiles must lie in the range (0, 1).''"]
    by (simp add: illegal_argument_def)
qed


section \<open>The scanner: numeric options\<close>

text \<open>
  C6, the claim as it is stated: a value that violates the bound of a numeric option
  fails the scan and the member keeps its previous value. For \<^verbatim>\<open>--fraction 1.5\<close> the scan
  fails, but the member \<^verbatim>\<open>fraction\<close> holds 1.5 and no longer its previous value 1.
\<close>

theorem fraction_overwritten_counterexample:
  "fraction (new_ArgumentHandler 0 [''grf'', ''--fraction'', ''1.5'']) = Finite 1 \<and>
   processArguments (new_ArgumentHandler 0 [''grf'', ''--fraction'', ''1.5'']) =
     Throw (runtime_error
       ''Illegal argument for option 'fraction'. Please give a value in (0,1]. See '--help' for details.'')
       ((new_ArgumentHandler 0 [''grf'', ''--fraction'', ''1.5''])\<lparr>fraction := Finite (3 / 2)\<rparr>)"
  by code_simp

text \<open>
  C6, amended. For the integer options ntree, mtry, targetpartitionsize, nthreads (least
  value 1) and seed (least value 0): a converted value that is not below the least value
  is stored exactly as converted; a value below it, or an argument that \<^verbatim>\<open>std::stoi\<close>
  cannot convert, fails the scan with the uniform failure that names the option, and the
  configuration is unchanged. For fraction: a number greater than 0 and at most 1 is
  stored exactly as converted; an argument that \<^verbatim>\<open>std::stod\<close> cannot convert fails the
  scan with the uniform failure for fraction and the configuration is unchanged; a
  number greater than 1 or at most 0 fails the scan with the same failure, and the
  member \<^verbatim>\<open>fraction\<close> then holds that number.
\<close>

theorem numeric_options:
  "((c, name, least, store) \<in> set integer_options \<longrightarrow>
      long_lookup name = Some (name, required_argument, c) \<and>
      (stoi a = Inr n \<and> least \<le> n \<longrightarrow> switch c (Some a) h = Continue (store n h)) \<and>
      (stoi a = Inr n \<and> n < least \<or> stoi a = Inl e \<longrightarrow>
         switch c (Some a) h =
           Stop (Throw (runtime_error (illegal_argument name ''a positive integer'')) h))) \<and>
   long_lookup ''fraction'' = Some (''fraction'', required_argument, CHR ''F'') \<and>
   (stod a = Inr x \<and> d_less (Finite 0) x \<and> d_le x (Finite 1) \<longrightarrow>
      switch (CHR ''F'') (Some a) h = Continue (h\<lparr>fraction := x\<rparr>)) \<and>
   (stod a = Inl e \<longrightarrow>
      switch (CHR ''F'') (Some a) h =
        Stop (Throw (runtime_error (illegal_argument ''fraction'' ''a value in (0,1]'')) h)) \<and>
   (stod a = Inr x \<and> (d_less (Finite 1) x \<or> d_le x (Finite 0)) \<longrightarrow>
      switch (CHR ''F'') (Some a) h =
        Stop (Throw (runtime_error (illegal_argument ''fraction'' ''a value in (0,1]''))
               (h\<lparr>fraction := x\<rparr>)))"
proof -
  have names:
    "long_lookup ''ntree'' = Some (''ntree'', required_argument, CHR ''t'')"
    "long_lookup ''mtry'' = Some (''mtry'', required_argument, CHR ''m'')"
    "long_lookup ''targetpartitionsize'' = Some (''targetpartitionsize'', required_argument, CHR ''l'')"
    "long_lookup ''nthreads'' = Some (''nthreads'', required_argument, CHR ''U'')"
    "long_lookup ''seed'' = Some (''seed'', required_argument, CHR ''z'')"
    "long_lookup ''fraction'' = Some (''fraction'', required_argument, CHR ''F'')"
    by code_simp+
  have ints: "(c, name, least, store) \<in> set integer_options \<longrightarrow>
      long_lookup name = Some (name, required_argument, c) \<and>
      (stoi a = Inr n \<and> least \<le> n \<longrightarrow> switch c (Some a) h = Continue (store n h)) \<and>
      (stoi a = Inr n \<and> n < least \<or> stoi a = Inl e \<longrightarrow>
         switch c (Some a) h =
           Stop (Throw (runtime_error (illegal_argument name ''a positive integer'')) h))"
    using names
    by (auto simp: integer_options_def switch_t switch_m switch_l switch_U switch_z)
  have frac_less: "d_less (Finite 0) x \<and> d_le x (Finite 1) \<Longrightarrow>
      \<not> (d_less (Finite 1) x \<or> d_le x (Finite 0))"
    by (cases x) (auto simp: d_le_def)
  show ?thesis
    using ints names(6) frac_less by (simp add: switch_F)
qed

theorem numeric_options_witness:
  "(CHR ''t'', ''ntree'', 1, \<lambda>n h. h\<lparr>ntree := n\<rparr>) \<in> set integer_options \<and>
   (CHR ''z'', ''seed'', 0, \<lambda>n h. h\<lparr>seed := n\<rparr>) \<in> set integer_options \<and>
   stoi ''100'' = Inr 100 \<and>
   switch (CHR ''t'') (Some ''100'') (new_ArgumentHandler 0 []) =
     Continue ((new_ArgumentHandler 0 [])\<lparr>ntree := 100\<rparr>) \<and>
   stoi ''0'' = Inr 0 \<and>
   switch (CHR ''t'') (Some ''0'') (new_ArgumentHandler 0 []) =
     Stop (Throw (runtime_error
       ''Illegal argument for option 'ntree'. Please give a positive integer. See '--help' for details.'')
       (new_ArgumentHandler 0 [])) \<and>
   switch (CHR ''z'') (Some ''0'') (new_ArgumentHandler 0 []) =
     Continue ((new_ArgumentHandler 0 [])\<lparr>seed := 0\<rparr>) \<and>
   stoi ''x'' = Inl invalid_argument \<and>
   switch (CHR ''z'') (Some ''x'') (new_ArgumentHandler 0 []) =
     Stop (Throw (runtime_error
       ''Illegal argument for option 'seed'. Please give a positive integer. See '--help' for details.'')
       (new_ArgumentHandler 0 [])) \<and>
   stod ''0.5'' = Inr (Finite (1 / 2)) \<and>
   switch (CHR ''F'') (Some ''0.5'') (new_ArgumentHandler 0 []) =
     Continue ((new_ArgumentHandler 0 [])\<lparr>fraction := Finite (1 / 2)\<rparr>) \<and>
   stod ''0'' = Inr (Finite 0) \<and>
   switch (CHR ''F'') (Some ''0'') (new_ArgumentHandler 0 []) =
     Stop (Throw (runtime_error
       ''Illegal argument for option 'fraction'. Please give a value in (0,1]. See '--help' for details.'')
       ((new_ArgumentHandler 0 [])\<lparr>fraction := Finite 0\<rparr>)) \<and>
   stod ''x'' = Inl invalid_argument \<and>
   switch (CHR ''F'') (Some ''x'') (new_ArgumentHandler 0 []) =
     Stop (Throw (runtime_error
       ''Illegal argument for option 'fraction'. Please give a value in (0,1]. See '--help' for details.'')
       (new_ArgumentHandler 0 []))"
proof -
  let ?h = "new_ArgumentHandler 0 []"
  have t: "(CHR ''t'', ''ntree'', 1, \<lambda>n h. h\<lparr>ntree := n\<rparr>) \<in> set integer_options"
    and z: "(CHR ''z'', ''seed'', 0, \<lambda>n h. h\<lparr>seed := n\<rparr>) \<in> set integer_options"
    by (simp_all add: integer_options_def)
  have i: "stoi ''100'' = Inr 100" "stoi ''0'' = Inr 0" "stoi ''x'' = Inl invalid_argument"
    by code_simp+
  have d: "stod ''0.5'' = Inr (Finite (1 / 2))" "stod ''0'' = Inr (Finite 0)"
    "stod ''x'' = Inl invalid_argument"
    by code_simp+
  show ?thesis
    using t z i d
      numeric_options [where c = "CHR ''t''" and name = "''ntree''" and least = 1
        and store = "\<lambda>n h. h\<lparr>ntree := n\<rparr>" and a = "''100''" and n = 100 and h = ?h]
      numeric_options [where c = "CHR ''t''" and name = "''ntree''" and least = 1
        and store = "\<lambda>n h. h\<lparr>ntree := n\<rparr>" and a = "''0''" and n = 0 and h = ?h]
      numeric_options [where c = "CHR ''z''" and name = "''seed''" and least = 0
        and store = "\<lambda>n h. h\<lparr>seed := n\<rparr>" and a = "''0''" and n = 0 and h = ?h]
      numeric_options [where c = "CHR ''z''" and name = "''seed''" and least = 0
        and store = "\<lambda>n h. h\<lparr>seed := n\<rparr>" and a = "''x''" and e = invalid_argument and h = ?h]
      numeric_options [where a = "''0.5''" and x = "Finite (1 / 2)" and h = ?h]
      numeric_options [where a = "''0''" and x = "Finite 0" and h = ?h]
      numeric_options [where a = "''x''" and e = invalid_argument and h = ?h]
    by (simp add: illegal_argument_def d_le_def)
qed


section \<open>The scanner: the tree type\<close>

text \<open>
  C7. The treetype option accepts exactly the codes 11 and 15: 11 sets the tree type to
  Quantile, 15 sets it to Instrumental, and every other argument (any other integer, such
  as the codes 1 and 3 of the help text) fails the scan with the uniform failure for the
  option treetype, the configuration unchanged.
\<close>

theorem treetype_codes:
  "long_lookup ''treetype'' = Some (''treetype'', required_argument, CHR ''y'') \<and>
   (stoi a = Inr 11 \<longrightarrow>
      scan ((CHR ''y'', Some a) # rs) h = scan rs (h\<lparr>treetype := TREE_QUANTILE\<rparr>)) \<and>
   (stoi a = Inr 15 \<longrightarrow>
      scan ((CHR ''y'', Some a) # rs) h = scan rs (h\<lparr>treetype := TREE_INSTRUMENTAL\<rparr>)) \<and>
   (stoi a \<noteq> Inr 11 \<and> stoi a \<noteq> Inr 15 \<longrightarrow>
      scan ((CHR ''y'', Some a) # rs) h =
        Stop (Throw (runtime_error
          ''Illegal argument for option 'treetype'. Please give a positive integer. See '--help' for details.'')
          h))"
proof -
  have "long_lookup ''treetype'' = Some (''treetype'', required_argument, CHR ''y'')"
    by code_simp
  then show ?thesis
    by (auto simp: switch_y illegal_argument_def split: sum.splits)
qed

theorem treetype_codes_witness:
  "stoi ''11'' = Inr 11 \<and> stoi ''15'' = Inr 15 \<and> stoi ''1'' = Inr 1 \<and> stoi ''3'' = Inr 3 \<and>
   scan [(CHR ''y'', Some ''15''), (CHR ''y'', Some ''11'')] (new_ArgumentHandler 0 []) =
     Continue ((new_ArgumentHandler 0 [])\<lparr>treetype := TREE_QUANTILE\<rparr>) \<and>
   scan [(CHR ''y'', Some ''15'')] (new_ArgumentHandler 0 []) =
     Continue ((new_ArgumentHandler 0 [])\<lparr>treetype := TREE_INSTRUMENTAL\<rparr>) \<and>
   scan [(CHR ''y'', Some ''1'')] (new_ArgumentHandler 0 []) =
     Stop (Throw (runtime_error
       ''Illegal argument for option 'treetype'. Please give a positive integer. See '--help' for details.'')
       (new_ArgumentHandler 0 [])) \<and>
   scan [(CHR ''y'', Some ''3'')] (new_ArgumentHandler 0 []) =
     Stop (Throw (runtime_error
       ''Illegal argument for option 'treetype'. Please give a positive integer. See '--help' for details.'')
       (new_ArgumentHandler 0 [])) \<and>
   processArguments (new_ArgumentHandler 0 [''grf'', ''--treetype'', ''15'']) =
     Return 0 [] ((new_ArgumentHandler 0 [''grf'', ''--treetype'', ''15''])
                    \<lparr>treetype := TREE_INSTRUMENTAL\<rparr>)"
proof -
  have s: "stoi ''11'' = Inr 11" "stoi ''15'' = Inr 15" "stoi ''1'' = Inr 1" "stoi ''3'' = Inr 3"
    by code_simp+
  have p: "processArguments (new_ArgumentHandler 0 [''grf'', ''--treetype'', ''15'']) =
     Return 0 [] ((new_ArgumentHandler 0 [''grf'', ''--treetype'', ''15''])
                    \<lparr>treetype := TREE_INSTRUMENTAL\<rparr>)"
    by code_simp
  show ?thesis
    using s p
      treetype_codes [where a = "''15''" and rs = "[(CHR ''y'', Some ''11'')]"
        and h = "new_ArgumentHandler 0 []"]
      treetype_codes [where a = "''11''" and rs = "[]"
        and h = "(new_ArgumentHandler 0 [])\<lparr>treetype := TREE_INSTRUMENTAL\<rparr>"]
      treetype_codes [where a = "''15''" and rs = "[]" and h = "new_ArgumentHandler 0 []"]
      treetype_codes [where a = "''1''" and rs = "[]" and h = "new_ArgumentHandler 0 []"]
      treetype_codes [where a = "''3''" and rs = "[]" and h = "new_ArgumentHandler 0 []"]
    by simp
qed


section \<open>The scanner: an option given more than once\<close>

text \<open>
  C8, the claim as it is stated: a later occurrence of an option overwrites the earlier
  one, also for the list-valued option quantiles. Two occurrences of \<^verbatim>\<open>--quantiles\<close> leave
  the values of both in \<^verbatim>\<open>quantiles\<close>, not only those of the last one.
\<close>

theorem repeated_quantiles_counterexample:
  "processArguments (new_ArgumentHandler 0 [''grf'', ''--quantiles'', ''0.25'', ''--quantiles'', ''0.5'']) =
     Return 0 []
       ((new_ArgumentHandler 0 [''grf'', ''--quantiles'', ''0.25'', ''--quantiles'', ''0.5''])
          \<lparr>quantiles := [Finite (1 / 4), Finite (1 / 2)]\<rparr>)"
  by code_simp

text \<open>
  C8, amended. For every option that assigns one member (caseweights, depvarname,
  fraction, savemem, predict, splitweights, nthreads, file, targetpartitionsize, mtry,
  statusvarname, instrumentvarname, ntree, noreplace, verbose, write, treetype, seed):
  after a scan that reaches its end, the member holds what the last occurrence of the
  option assigns, whatever stood before it; \<^verbatim>\<open>--ntree 10 --ntree 20\<close> gives 20. The
  quantiles option does not overwrite: each occurrence adds the values of its list to the
  end of \<^verbatim>\<open>quantiles\<close>, and no scan removes a value from it.
\<close>

theorem last_occurrence_wins:
  "(c \<in> set assigning_options \<and> scan (rs @ (c, optarg) # rs') h = Continue h' \<and>
    c \<notin> fst ` set rs' \<and> switch c optarg g = Continue g' \<longrightarrow>
      member_of c h' = member_of c g') \<and>
   (scan rs h = Continue h' \<longrightarrow> prefix (quantiles h) (quantiles h')) \<and>
   (switch (CHR ''q'') (Some a) h = Continue h' \<longrightarrow>
      map stod (splitString [] a (CHR '','')) =
        map Inr (drop (length (quantiles h)) (quantiles h')) \<and>
      take (length (quantiles h)) (quantiles h') = quantiles h)"
proof -
  have "member_of c h' = member_of c g'"
    if c: "c \<in> set assigning_options" and s: "scan (rs @ (c, optarg) # rs') h = Continue h'"
      and n: "c \<notin> fst ` set rs'" and w: "switch c optarg g = Continue g'"
  proof -
    from s obtain ha hb where ha: "scan rs h = Continue ha"
      and hb: "switch c optarg ha = Continue hb" and h': "scan rs' hb = Continue h'"
      by (auto simp: scan_append split: step.splits)
    from scan_member_frame [OF h' n] have "member_of c h' = member_of c hb" .
    also from switch_member_determined [OF c hb w] have "\<dots> = member_of c g'" .
    finally show ?thesis .
  qed
  moreover have "scan rs h = Continue h' \<longrightarrow> prefix (quantiles h) (quantiles h')"
    using scan_quantiles_prefix by blast
  moreover have "switch (CHR ''q'') (Some a) h = Continue h' \<longrightarrow>
      map stod (splitString [] a (CHR '','')) =
        map Inr (drop (length (quantiles h)) (quantiles h')) \<and>
      take (length (quantiles h)) (quantiles h') = quantiles h"
    using push_quantiles_appends [of "splitString [] a (CHR '','')" h h']
    by (auto simp: switch_q)
  ultimately show ?thesis
    by blast
qed

theorem last_occurrence_wins_witness:
  "CHR ''t'' \<in> set assigning_options \<and>
   getopt_long (tl (argv (new_ArgumentHandler 0 [''grf'', ''--ntree'', ''10'', ''-v'', ''--ntree'', ''20'', ''--mtry'', ''3'']))) =
     ([(CHR ''t'', Some ''10''), (CHR ''v'', None)] @ (CHR ''t'', Some ''20'') # [(CHR ''m'', Some ''3'')], []) \<and>
   CHR ''t'' \<notin> fst ` set [(CHR ''m'', Some ''3'')] \<and>
   switch (CHR ''t'') (Some ''20'') (new_ArgumentHandler 0 []) =
     Continue ((new_ArgumentHandler 0 [])\<lparr>ntree := 20\<rparr>) \<and>
   processArguments (new_ArgumentHandler 0 [''grf'', ''--ntree'', ''10'', ''-v'', ''--ntree'', ''20'', ''--mtry'', ''3'']) =
     Return 0 []
       ((new_ArgumentHandler 0 [''grf'', ''--ntree'', ''10'', ''-v'', ''--ntree'', ''20'', ''--mtry'', ''3''])
          \<lparr>ntree := 20, verbose := True, mtry := 3\<rparr>) \<and>
   member_of (CHR ''t'')
       ((new_ArgumentHandler 0 [''grf'', ''--ntree'', ''10'', ''-v'', ''--ntree'', ''20'', ''--mtry'', ''3''])
          \<lparr>ntree := 20, verbose := True, mtry := 3\<rparr>) = Number 20 \<and>
   switch (CHR ''q'') (Some ''0.5'') ((new_ArgumentHandler 0 [])\<lparr>quantiles := [Finite (1 / 4)]\<rparr>) =
     Continue ((new_ArgumentHandler 0 [])\<lparr>quantiles := [Finite (1 / 4), Finite (1 / 2)]\<rparr>)"
proof -
  let ?h = "new_ArgumentHandler 0 [''grf'', ''--ntree'', ''10'', ''-v'', ''--ntree'', ''20'', ''--mtry'', ''3'']"
  let ?h' = "?h\<lparr>ntree := 20, verbose := True, mtry := 3\<rparr>"
  let ?e = "new_ArgumentHandler 0 []"
  have c: "CHR ''t'' \<in> set assigning_options"
    by (simp add: assigning_options_def)
  have l: "getopt_long (tl (argv ?h)) =
      ([(CHR ''t'', Some ''10''), (CHR ''v'', None)] @ (CHR ''t'', Some ''20'') # [(CHR ''m'', Some ''3'')], [])"
    by code_simp
  have s: "scan ([(CHR ''t'', Some ''10''), (CHR ''v'', None)] @ (CHR ''t'', Some ''20'') # [(CHR ''m'', Some ''3'')]) ?h
      = Continue ?h'"
    by code_simp
  have w: "switch (CHR ''t'') (Some ''20'') ?e = Continue (?e\<lparr>ntree := 20\<rparr>)"
    by code_simp
  have p: "processArguments ?h = Return 0 [] ?h'"
    by code_simp
  have q: "switch (CHR ''q'') (Some ''0.5'') (?e\<lparr>quantiles := [Finite (1 / 4)]\<rparr>) =
      Continue (?e\<lparr>quantiles := [Finite (1 / 4), Finite (1 / 2)]\<rparr>)"
    by code_simp
  have m: "member_of (CHR ''t'') (?e\<lparr>ntree := 20\<rparr>) = Number 20"
    by (simp add: member_of_def)
  show ?thesis
    using c l s w p q m
      last_occurrence_wins [where c = "CHR ''t''" and rs = "[(CHR ''t'', Some ''10''), (CHR ''v'', None)]"
        and optarg = "Some ''20''" and rs' = "[(CHR ''m'', Some ''3'')]" and h = ?h and h' = ?h'
        and g = ?e and g' = "?e\<lparr>ntree := 20\<rparr>"]
    by simp
qed


section \<open>The scanner: the state after a normal return\<close>

text \<open>
  C9 says that after a normal return every stored quantile is strictly between 0 and 1
  and the fraction is in (0,1]. The range checks of the source compare with 0 and 1, and
  every comparison with NaN is false: for \<^verbatim>\<open>--quantiles nan\<close> the scan returns 0 with NaN
  among the quantiles, and for \<^verbatim>\<open>--fraction nan\<close> with NaN as the fraction.
\<close>

theorem nan_quantile_stored:
  "processArguments (new_ArgumentHandler 0 [''grf'', ''--quantiles'', ''nan'']) =
     Return 0 [] ((new_ArgumentHandler 0 [''grf'', ''--quantiles'', ''nan''])\<lparr>quantiles := [NaN]\<rparr>) \<and>
   \<not> (d_less (Finite 0) NaN \<and> d_less NaN (Finite 1)) \<and>
   processArguments (new_ArgumentHandler 0 [''grf'', ''--fraction'', ''nan'']) =
     Return 0 [] ((new_ArgumentHandler 0 [''grf'', ''--fraction'', ''nan''])\<lparr>fraction := NaN\<rparr>) \<and>
   \<not> (d_less (Finite 0) NaN \<and> d_le NaN (Finite 1))"
  by code_simp

text \<open>
  Apart from NaN the constraints hold. After a normal return of \<^verbatim>\<open>processArguments\<close> on a
  freshly constructed object: the fraction is NaN or lies in (0,1]; every quantile is NaN
  or lies strictly between 0 and 1; ntree is at least 1; mtry and targetpartitionsize are
  0 or at least 1; nthreads is its default or at least 1; seed is at least 0; and every
  integer member is at most the largest \<^verbatim>\<open>int\<close>.
\<close>

theorem scanner_invariant:
  "processArguments (new_ArgumentHandler d args) = Return 0 out h' \<longrightarrow> scanned_ok d h'"
proof
  assume r: "processArguments (new_ArgumentHandler d args) = Return 0 out h'"
  obtain rs others where g: "getopt_long (tl (argv (new_ArgumentHandler d args))) = (rs, others)"
    by (cases "getopt_long (tl (argv (new_ArgumentHandler d args)))")
  have start: "scanned_ok d (new_ArgumentHandler d args)"
    by (simp add: scanned_ok_def new_ArgumentHandler_def DEFAULT_NUM_TREE_def d_le_def)
  show "scanned_ok d h'"
  proof (cases "scan rs (new_ArgumentHandler d args)")
    case (Continue h1)
    with r g have "h1 = h'"
      by (simp add: processArguments_def)
    with Continue scan_scanned_ok [OF start] show ?thesis
      by simp
  next
    case (Stop x)
    with r g have "scan rs (new_ArgumentHandler d args) = Stop (Return 0 out h')"
      by (simp add: processArguments_def)
    from scan_Return [OF this] show ?thesis
      by simp
  qed
qed

theorem scanner_invariant_witness:
  "processArguments (new_ArgumentHandler 0
      [''grf'', ''--ntree'', ''7'', ''--fraction'', ''0.5'', ''--quantiles'', ''0.25,0.5'', ''--seed'', ''0'']) =
     Return 0 []
       ((new_ArgumentHandler 0
          [''grf'', ''--ntree'', ''7'', ''--fraction'', ''0.5'', ''--quantiles'', ''0.25,0.5'', ''--seed'', ''0''])
          \<lparr>fraction := Finite (1 / 2), quantiles := [Finite (1 / 4), Finite (1 / 2)], ntree := 7\<rparr>) \<and>
   scanned_ok 0
       ((new_ArgumentHandler 0
          [''grf'', ''--ntree'', ''7'', ''--fraction'', ''0.5'', ''--quantiles'', ''0.25,0.5'', ''--seed'', ''0''])
          \<lparr>fraction := Finite (1 / 2), quantiles := [Finite (1 / 4), Finite (1 / 2)], ntree := 7\<rparr>)"
proof -
  let ?h = "new_ArgumentHandler 0
      [''grf'', ''--ntree'', ''7'', ''--fraction'', ''0.5'', ''--quantiles'', ''0.25,0.5'', ''--seed'', ''0'']"
  let ?h' = "?h\<lparr>fraction := Finite (1 / 2), quantiles := [Finite (1 / 4), Finite (1 / 2)], ntree := 7\<rparr>"
  have p: "processArguments ?h = Return 0 [] ?h'"
    by code_simp
  show ?thesis
    using p scanner_invariant [where d = 0
      and args = "[''grf'', ''--ntree'', ''7'', ''--fraction'', ''0.5'', ''--quantiles'', ''0.25,0.5'', ''--seed'', ''0'']"
      and out = "[]" and h' = ?h']
    by simp
qed


section \<open>The validator: order of the checks\<close>

text \<open>
  C5. \<^verbatim>\<open>checkArguments\<close> fails with the first rule that is violated, in the fixed order
  of the five rules: input file, predict file or dependent variable, instrument variable
  for instrumental trees, status variable for instrumental trees, split weights together
  with always-split variables. In particular an instrumental configuration with an input
  file and a dependent variable but neither instrument nor status variable fails with
  the error of rule 3, not with that of rule 4.
\<close>

theorem checkArguments_first_violated_rule:
  "checkArguments h = map_option rule_error (first_violated_rule h) \<and>
   (treetype h = TREE_INSTRUMENTAL \<and> file_name h \<noteq> [] \<and> depvarname h \<noteq> [] \<and>
    instrumentvarname h = [] \<and> statusvarname h = [] \<longrightarrow>
      first_violated_rule h = Some 3 \<and>
      checkArguments h = Some (rule_error 3) \<and> checkArguments h \<noteq> Some (rule_error 4))"
proof -
  have eq: "checkArguments h = map_option rule_error (first_violated_rule h)"
    by (simp add: checkArguments_def checks_def first_violated_rule_def rule_error_def)
  have "rule_error 3 \<noteq> rule_error 4"
    by (simp add: rule_error_def)
  then show ?thesis
    using eq by (simp add: first_violated_rule_def)
qed

theorem checkArguments_first_violated_rule_witness:
  "treetype ((new_ArgumentHandler 0 [])\<lparr>file_name := ''in.csv'', depvarname := ''y'', treetype := TREE_INSTRUMENTAL\<rparr>) = TREE_INSTRUMENTAL \<and>
   file_name ((new_ArgumentHandler 0 [])\<lparr>file_name := ''in.csv'', depvarname := ''y'', treetype := TREE_INSTRUMENTAL\<rparr>) \<noteq> [] \<and>
   depvarname ((new_ArgumentHandler 0 [])\<lparr>file_name := ''in.csv'', depvarname := ''y'', treetype := TREE_INSTRUMENTAL\<rparr>) \<noteq> [] \<and>
   instrumentvarname ((new_ArgumentHandler 0 [])\<lparr>file_name := ''in.csv'', depvarname := ''y'', treetype := TREE_INSTRUMENTAL\<rparr>) = [] \<and>
   statusvarname ((new_ArgumentHandler 0 [])\<lparr>file_name := ''in.csv'', depvarname := ''y'', treetype := TREE_INSTRUMENTAL\<rparr>) = [] \<and>
   checkArguments ((new_ArgumentHandler 0 [])\<lparr>file_name := ''in.csv'', depvarname := ''y'', treetype := TREE_INSTRUMENTAL\<rparr>)
     = Some (runtime_error ''When using instrumental trees, the instrument variable must be specified through--instrumentvarname. See '--help' for details.'')"
  using checkArguments_first_violated_rule
    [of "(new_ArgumentHandler 0 [])\<lparr>file_name := ''in.csv'', depvarname := ''y'', treetype := TREE_INSTRUMENTAL\<rparr>"]
  by (simp add: new_ArgumentHandler_def rule_error_def)


text \<open>
  C10. The fifth statement of \<^verbatim>\<open>checkArguments\<close> has the guard of the third one. Whenever
  the first four statements have not thrown, its guard is false, so the message
  ``Option '--instrumentvarname' only applicable for instrumental forests'' is never
  produced.
\<close>

theorem fifth_check_unreachable:
  "fst (checks h ! 4) = fst (checks h ! 2) \<and>
   snd (checks h ! 4) =
     ''Option '--instrumentvarname' only applicable for instrumental forests. See '--help' for details.'' \<and>
   (first_throw (take 4 (checks h)) = None \<longrightarrow> \<not> fst (checks h ! 4)) \<and>
   checkArguments h \<noteq> Some (runtime_error
     ''Option '--instrumentvarname' only applicable for instrumental forests. See '--help' for details.'')"
  by (simp add: checkArguments_def checks_def)

theorem fifth_check_unreachable_witness:
  "first_throw (take 4 (checks ((new_ArgumentHandler 0 [])\<lparr>file_name := ''in.csv'', depvarname := ''y''\<rparr>))) = None \<and>
   \<not> fst (checks ((new_ArgumentHandler 0 [])\<lparr>file_name := ''in.csv'', depvarname := ''y''\<rparr>) ! 4) \<and>
   first_throw (take 4 (checks ((new_ArgumentHandler 0 [])\<lparr>file_name := ''in.csv'', depvarname := ''y'',
       treetype := TREE_INSTRUMENTAL, instrumentvarname := ''z'', statusvarname := ''w''\<rparr>))) = None \<and>
   \<not> fst (checks ((new_ArgumentHandler 0 [])\<lparr>file_name := ''in.csv'', depvarname := ''y'',
       treetype := TREE_INSTRUMENTAL, instrumentvarname := ''z'', statusvarname := ''w''\<rparr>) ! 4)"
  using fifth_check_unreachable
    [of "(new_ArgumentHandler 0 [])\<lparr>file_name := ''in.csv'', depvarname := ''y''\<rparr>"]
    fifth_check_unreachable
    [of "(new_ArgumentHandler 0 [])\<lparr>file_name := ''in.csv'', depvarname := ''y'',
       treetype := TREE_INSTRUMENTAL, instrumentvarname := ''z'', statusvarname := ''w''\<rparr>"]
  by (simp add: new_ArgumentHandler_def checks_def)


section \<open>Further properties of the scanner\<close>

text \<open>
  The example of the spec: for \<^verbatim>\<open>--file in.csv --depvarname y --ntree 100\<close> the scan returns 0
  with the input file, the dependent variable and the number of trees set and every other
  member at its default, and the validator accepts the configuration.
\<close>

theorem spec_example_run:
  "processArguments (new_ArgumentHandler d
      [''grf'', ''--file'', ''in.csv'', ''--depvarname'', ''y'', ''--ntree'', ''100'']) =
     Return 0 []
       ((new_ArgumentHandler d
          [''grf'', ''--file'', ''in.csv'', ''--depvarname'', ''y'', ''--ntree'', ''100''])
          \<lparr>depvarname := ''y'', file_name := ''in.csv'', ntree := 100\<rparr>) \<and>
   checkArguments
       ((new_ArgumentHandler d
          [''grf'', ''--file'', ''in.csv'', ''--depvarname'', ''y'', ''--ntree'', ''100''])
          \<lparr>depvarname := ''y'', file_name := ''in.csv'', ntree := 100\<rparr>) = None"
  by code_simp

text \<open>
  The option string lists \<^verbatim>\<open>i\<close> without a colon, while the long option
  \<^verbatim>\<open>instrumentvarname\<close> requires an argument. For the short spelling \<^verbatim>\<open>-i\<close>, \<^verbatim>\<open>getopt_long\<close>
  gives the code \<^verbatim>\<open>'i'\<close> with a null \<^verbatim>\<open>optarg\<close>, and case \<^verbatim>\<open>'i'\<close> assigns it to the
  \<^verbatim>\<open>std::string\<close> member, which has no defined behaviour; the long spelling stores the
  name.
\<close>

theorem short_option_i_null_optarg:
  "short_lookup short_options (CHR ''i'') = Some no_argument \<and>
   getopt_long [''-i'', ''z''] = ([(CHR ''i'', None)], [''z'']) \<and>
   processArguments (new_ArgumentHandler d [''grf'', ''-i'', ''z'']) = Undefined \<and>
   processArguments (new_ArgumentHandler d [''grf'', ''--instrumentvarname'', ''z'']) =
     Return 0 [] ((new_ArgumentHandler d [''grf'', ''--instrumentvarname'', ''z''])
                    \<lparr>instrumentvarname := ''z''\<rparr>)"
  by code_simp

end
